theory Spec2Isabelle
  imports Complex_Main "HOL-Library.Word"
begin

section \<open>Data model\<close>

text \<open>
  A JavaScript string is a sequence of UTF-16 code units; \<open>length\<close>, \<open>trim\<close> and the
  regular expression class \<open>\s\<close> all work on code units. Identifiers, plan and role
  names, paths and messages are only ever compared for equality and are kept as HOL
  strings.
\<close>

type_synonym jsstring = "16 word list"

text \<open>
  The \<open>monthlyLimit\<close> field as \<open>getMonthlyLimit\<close> can see it: a number, or a value whose
  \<open>typeof\<close> is not \<open>"number"\<close>. The column is an INTEGER, so the numbers are integers.
\<close>

datatype limit_field = Number int | Null | Undefined

text \<open>
  A row of the \<open>user\<close> table, restricted to the columns the quota and storage code
  reads or writes. \<open>role\<close> is a nullable column; \<open>storageUsed\<close> is a BigInt that the
  handlers also test against \<open>null\<close>; \<open>lastReset\<close> is a timestamp in milliseconds.
\<close>

record user =
  user_id :: string
  plan :: string
  role :: "string option"
  documentsUsed :: int
  monthlyLimit :: limit_field
  storageUsed :: "int option"
  lastReset :: int

section \<open>utils/limits.js\<close>

definition getMonthlyLimit :: "user \<Rightarrow> int" where
  "getMonthlyLimit u =
     (let baseLimit = (case monthlyLimit u of Number n \<Rightarrow> n | _ \<Rightarrow> 5);
          isPremium = (plan u = ''premium'' \<or> role u = Some ''admin'');
          minLimit = (if isPremium then 100 else 0)
      in max baseLimit minLimit)"

definition getRemainingDocuments :: "user \<Rightarrow> int" where
  "getRemainingDocuments u = max (getMonthlyLimit u - documentsUsed u) 0"

section \<open>Strings\<close>

definition js :: "string \<Rightarrow> jsstring" where
  "js s = map (\<lambda>c. of_nat (of_char c)) s"

text \<open>
  The code units that \<open>String.prototype.trim\<close> removes and that \<open>\s\<close> matches: the
  WhiteSpace and LineTerminator productions (TAB, LF, VT, FF, CR, SP, NBSP, the
  space separators U+1680, U+2000..U+200A, U+202F, U+205F, U+3000, the line and
  paragraph separators and the byte order mark).
\<close>

definition isWhiteSpace :: "16 word \<Rightarrow> bool" where
  "isWhiteSpace c \<longleftrightarrow>
     c = 0x9 \<or> c = 0xA \<or> c = 0xB \<or> c = 0xC \<or> c = 0xD \<or> c = 0x20 \<or> c = 0xA0
     \<or> c = 0x1680 \<or> (0x2000 \<le> c \<and> c \<le> 0x200A) \<or> c = 0x2028 \<or> c = 0x2029
     \<or> c = 0x202F \<or> c = 0x205F \<or> c = 0x3000 \<or> c = 0xFEFF"

definition trim :: "jsstring \<Rightarrow> jsstring" where
  "trim s = rev (dropWhile isWhiteSpace (rev (dropWhile isWhiteSpace s)))"

definition startsWith :: "jsstring \<Rightarrow> jsstring \<Rightarrow> bool" where
  "startsWith p s \<longleftrightarrow> take (length p) s = p"

definition endsWith :: "jsstring \<Rightarrow> jsstring \<Rightarrow> bool" where
  "endsWith p s \<longleftrightarrow> length p \<le> length s \<and> drop (length s - length p) s = p"

text \<open>
  \<^verbatim>\<open>responseText.replace(/^```json\s*|\s*```$/g, "")\<close>. Neither alternative matches the
  empty string. The first alternative can match at index 0 only and is tried there
  first: it takes the opening fence with its \<open>json\<close> tag and all whitespace after it.
  The second alternative has to end at the end of the string; the leftmost match
  after the first one takes the closing fence with all whitespace before it, and it
  lies wholly in what the first match left.
\<close>

definition stripFence :: "jsstring \<Rightarrow> jsstring" where
  "stripFence s =
     (let afterOpen =
            (if startsWith (js ''```json'') s then dropWhile isWhiteSpace (drop 7 s) else s)
      in if endsWith (js ''```'') afterOpen
         then rev (dropWhile isWhiteSpace (drop 3 (rev afterOpen)))
         else afterOpen)"

section \<open>Errors, JSON values, rows and responses\<close>

datatype error =
    TypeError string
  | SyntaxError string
  | ServiceError string
  | DecoderError string
  | StoreError string
  | RecordNotFound string

fun message :: "error \<Rightarrow> string" where
  "message (TypeError m) = m"
| "message (SyntaxError m) = m"
| "message (ServiceError m) = m"
| "message (DecoderError m) = m"
| "message (StoreError m) = m"
| "message (RecordNotFound m) = m"

datatype json =
    JNull
  | JBool bool
  | JNum rat
  | JStr jsstring
  | JArr "json list"
  | JObj "(jsstring \<times> json) list"

text \<open>
  Reading the property named \<open>k\<close> of a parsed value: a TypeError on \<open>null\<close>, with the
  engine's message, \<open>undefined\<close> (here \<open>None\<close>) where the value has no such property.
\<close>

fun getProp :: "json \<Rightarrow> string \<Rightarrow> error + json option" where
  "getProp JNull k
     = Inl (TypeError (''Cannot read properties of null (reading '' @ [CHR 0x27] @ k
                        @ [CHR 0x27] @ '')''))"
| "getProp (JObj kvs) k = Inr (map_of kvs (js k))"
| "getProp v k = Inr None"

text \<open>A row of the \<open>Document\<close> table.\<close>

record document =
  doc_id :: string
  userId :: string
  filename :: string
  originalName :: string
  fileType :: string
  fileSize :: int
  language :: string
  summary :: "json option"
  flashcards :: "json option"
  examQuestions :: "json option"
  uploadDate :: int

text \<open>
  What the handlers read and write: the two tables, the upload directory, and the
  number of times \<open>openai.chat.completions.create\<close> has been invoked so far. The client is
  built with its default options; the requests it sends, and may repeat, inside one
  invocation are not part of the state.
\<close>

record world =
  users :: "user list"
  documents :: "document list"
  files :: "string list"
  calls :: nat

text \<open>
  The collaborators of one request, as outcomes the handlers cannot influence: the
  clock, the two decoders, the completion client (the outcome of the i-th invocation of
  \<open>create\<close> for a language name and a document prefix, after whatever the client does
  inside it: an exception, or the message content, which can be \<open>null\<close>), \<open>JSON.parse\<close>, the store's answer to the one \<open>document.create\<close> (an
  exception, or the identifier it generates) and whether \<open>fs.unlink\<close> succeeds. Reads
  and updates of existing rows are taken to succeed; an update of a missing row raises.
\<close>

record env =
  now :: int
  pdfParse :: "string \<Rightarrow> error + jsstring"
  extractRawText :: "string \<Rightarrow> error + jsstring"
  completion :: "nat \<Rightarrow> string \<Rightarrow> jsstring \<Rightarrow> error + jsstring option"
  JSON_parse :: "jsstring \<Rightarrow> error + json"
  createOutcome :: "error + string"
  unlinkWorks :: bool

datatype body =
    ErrorBody string "string option"
  | UploadBody document
  | SuccessBody "string option"

record response =
  status :: nat
  body :: body

text \<open>The file multer stored for the request (\<open>req.file\<close>); \<open>size\<close> is a byte count.\<close>

record upload_file =
  file_path :: string
  file_filename :: string
  file_originalname :: string
  file_mimetype :: string
  file_size :: nat

text \<open>A request after \<open>requireAuth\<close>: the session's user and what the route reads.\<close>

record request =
  session_user_id :: string
  session_user_role :: "string option"
  body_language :: "string option"
  req_file :: "upload_file option"

section \<open>Store and file system operations\<close>

definition findUser :: "string \<Rightarrow> world \<Rightarrow> user option" where
  "findUser i w = find (\<lambda>u. user_id u = i) (users w)"

text \<open>\<open>prisma.user.update\<close>: raises when no row has the identifier.\<close>

definition updateUser :: "string \<Rightarrow> (user \<Rightarrow> user) \<Rightarrow> world \<Rightarrow> (error + user) \<times> world" where
  "updateUser i f w =
     (case findUser i w of
        None \<Rightarrow> (Inl (RecordNotFound ''Record to update not found''), w)
      | Some u \<Rightarrow>
          (Inr (f u), w\<lparr>users := map (\<lambda>v. if user_id v = i then f v else v) (users w)\<rparr>))"

definition findDocument :: "string \<Rightarrow> world \<Rightarrow> document option" where
  "findDocument i w = find (\<lambda>d. doc_id d = i) (documents w)"

definition deleteDocument :: "string \<Rightarrow> world \<Rightarrow> world" where
  "deleteDocument i w = w\<lparr>documents := filter (\<lambda>d. doc_id d \<noteq> i) (documents w)\<rparr>"

text \<open>
  \<open>prisma.document.create\<close>: the store generates the identifier; the write raises when
  the store says so or when the identifier is taken (primary key).
\<close>

definition createDocument :: "env \<Rightarrow> document \<Rightarrow> world \<Rightarrow> (error + document) \<times> world" where
  "createDocument env d w =
     (case createOutcome env of
        Inl e \<Rightarrow> (Inl e, w)
      | Inr i \<Rightarrow>
          if findDocument i w \<noteq> None
          then (Inl (StoreError ''Unique constraint failed''), w)
          else (let row = d\<lparr>doc_id := i, uploadDate := now env\<rparr>
                in (Inr row, w\<lparr>documents := documents w @ [row]\<rparr>)))"

text \<open>\<^verbatim>\<open>await fs.unlink(path).catch(() => {})\<close>: a failure is swallowed.\<close>

definition unlink :: "env \<Rightarrow> string \<Rightarrow> world \<Rightarrow> world" where
  "unlink env p w = (if unlinkWorks env then w\<lparr>files := removeAll p (files w)\<rparr> else w)"

section \<open>Text extraction and content generation\<close>

definition extractTextFromFile :: "env \<Rightarrow> string \<Rightarrow> string \<Rightarrow> error + jsstring" where
  "extractTextFromFile env filepath mimetype =
     (if mimetype = ''application/pdf'' then pdfParse env filepath
      else if mimetype
           = ''application/vnd.openxmlformats-officedocument.wordprocessingml.document''
      then extractRawText env filepath
      else if mimetype
           = ''application/vnd.openxmlformats-officedocument.presentationml.presentation''
      then Inr (js ''PowerPoint content extraction - implement with pptx parser library'')
      else Inr [])"

text \<open>
  One invocation of \<open>create\<close>, for the language name and the first 8000 code units of
  the text; the caught error is rethrown as it is.
\<close>

definition generateStudyMaterials ::
  "env \<Rightarrow> jsstring \<Rightarrow> string \<Rightarrow> world \<Rightarrow> (error + json) \<times> world" where
  "generateStudyMaterials env text lang w =
     (let languageName = (if lang = ''arabic'' then ''Arabic'' else ''English'');
          w' = w\<lparr>calls := calls w + 1\<rparr>
      in case completion env (calls w) languageName (take 8000 text) of
           Inl e \<Rightarrow> (Inl e, w')
         | Inr None \<Rightarrow>
             (Inl (TypeError ''Cannot read properties of null (reading 'trim')''), w')
         | Inr (Some content) \<Rightarrow>
             (let responseText = trim content;
                  cleanedResponse = stripFence responseText
              in (JSON_parse env cleanedResponse, w')))"

section \<open>The upload handler\<close>

text \<open>
  \<^verbatim>\<open>(now - lastReset) / (1000 * 60 * 60 * 24) < 30\<close> on millisecond timestamps. The quotient
  is exact here; the source computes it in double precision, which gives the same
  comparison for differences below \<open>2^53\<close>: 30 days is a whole number of milliseconds
  and the next smaller quotient is further from 30 than a rounding error. The update is
  \<open>prisma.user.update\<close> on \<open>user.id\<close>, and its result is the updated row.
\<close>

definition resetMonthlyUsageIfNeeded :: "env \<Rightarrow> user \<Rightarrow> world \<Rightarrow> (error + user) \<times> world" where
  "resetMonthlyUsageIfNeeded env u w =
     (let daysSinceReset = (of_int (now env - lastReset u) :: rat) / (1000 * 60 * 60 * 24)
      in if daysSinceReset < 30 then (Inr u, w)
         else updateUser (user_id u) (\<lambda>r. r\<lparr>documentsUsed := 0, lastReset := now env\<rparr>) w)"

text \<open>The \<open>storageUsed === null\<close> step of the handler.\<close>

definition initStorage :: "user \<Rightarrow> world \<Rightarrow> (error + user) \<times> world" where
  "initStorage dbUser w =
     (if storageUsed dbUser = None
      then (case updateUser (user_id dbUser) (\<lambda>r. r\<lparr>storageUsed := Some 0\<rparr>) w of
              (Inl e, w') \<Rightarrow> (Inl e, w')
            | (Inr r, w') \<Rightarrow> (Inr (dbUser\<lparr>storageUsed := Some 0\<rparr>), w'))
      else (Inr dbUser, w))"

text \<open>
  The handler from the extraction on: extraction, the length check, generation,
  \<open>document.create\<close>, the accounting update, the cleanup and the response. \<open>Inl\<close> is a
  thrown error, with the state reached when it was thrown.
\<close>

definition ingest ::
  "env \<Rightarrow> request \<Rightarrow> upload_file \<Rightarrow> string \<Rightarrow> world \<Rightarrow> (error + response) \<times> world" where
  "ingest env req file selectedLanguage w =
     (case extractTextFromFile env (file_path file) (file_mimetype file) of
        Inl e \<Rightarrow> (Inl e, w)
      | Inr text \<Rightarrow>
          if text = [] \<or> length (trim text) < 50
          then (Inr \<lparr>status = 400,
                     body = ErrorBody ''Could not extract enough text from file'' None\<rparr>,
                unlink env (file_path file) w)
          else
            (case generateStudyMaterials env text selectedLanguage w of
               (Inl e, w1) \<Rightarrow> (Inl e, w1)
             | (Inr studyMaterials, w1) \<Rightarrow>
                 (case getProp studyMaterials ''summary'' of
                    Inl e \<Rightarrow> (Inl e, w1)
                  | Inr sm \<Rightarrow>
                 (case getProp studyMaterials ''flashcards'' of
                    Inl e \<Rightarrow> (Inl e, w1)
                  | Inr fc \<Rightarrow>
                 (case getProp studyMaterials ''examQuestions'' of
                    Inl e \<Rightarrow> (Inl e, w1)
                  | Inr eq \<Rightarrow>
                 (case createDocument env
                         \<lparr>doc_id = [], userId = session_user_id req,
                          filename = file_filename file,
                          originalName = file_originalname file,
                          fileType = file_mimetype file,
                          fileSize = int (file_size file),
                          language = selectedLanguage,
                          summary = sm, flashcards = fc, examQuestions = eq,
                          uploadDate = 0\<rparr> w1 of
                    (Inl e, w2) \<Rightarrow> (Inl e, w2)
                  | (Inr doc, w2) \<Rightarrow>
                      (case updateUser (session_user_id req)
                              (\<lambda>r. r\<lparr>documentsUsed := documentsUsed r + 1,
                                     storageUsed :=
                                       map_option (\<lambda>s. s + int (file_size file))
                                         (storageUsed r)\<rparr>) w2 of
                         (Inl e, w3) \<Rightarrow> (Inl e, w3)
                       | (Inr r, w3) \<Rightarrow>
                           (Inr \<lparr>status = 200, body = UploadBody doc\<rparr>,
                            unlink env (file_path file) w3))))))))"

text \<open>The body of the handler's \<open>try\<close> block, for a request that carries a file.\<close>

definition uploadTry :: "env \<Rightarrow> request \<Rightarrow> upload_file \<Rightarrow> world \<Rightarrow> (error + response) \<times> world" where
  "uploadTry env req file w =
     (let selectedLanguage = (if body_language req = Some ''arabic'' then ''arabic'' else ''english'')
      in case findUser (session_user_id req) w of
           None \<Rightarrow>
             (Inr \<lparr>status = 404, body = ErrorBody ''User not found'' None\<rparr>,
              unlink env (file_path file) w)
         | Some found \<Rightarrow>
             (case resetMonthlyUsageIfNeeded env found w of
                (Inl e, w1) \<Rightarrow> (Inl e, w1)
              | (Inr afterReset, w1) \<Rightarrow>
                  (case initStorage afterReset w1 of
                     (Inl e, w2) \<Rightarrow> (Inl e, w2)
                   | (Inr dbUser, w2) \<Rightarrow>
                       (let limit = getMonthlyLimit dbUser
                        in if documentsUsed dbUser \<ge> limit
                           then (Inr \<lparr>status = 403,
                                      body = ErrorBody ''Monthly upload limit reached''
                                        (Some (if plan dbUser = ''premium''
                                                  \<or> role dbUser = Some ''admin''
                                               then ''Upgrade for more''
                                               else ''Free limit reached''))\<rparr>,
                                 unlink env (file_path file) w2)
                           else ingest env req file selectedLanguage w2))))"

text \<open>\<open>POST /upload\<close>: the \<open>try\<close> block and its \<open>catch\<close>.\<close>

definition upload :: "env \<Rightarrow> request \<Rightarrow> world \<Rightarrow> response \<times> world" where
  "upload env req w =
     (case req_file req of
        None \<Rightarrow> (\<lparr>status = 400, body = ErrorBody ''No file uploaded'' None\<rparr>, w)
      | Some file \<Rightarrow>
          (case uploadTry env req file w of
             (Inr res, w') \<Rightarrow> (res, w')
           | (Inl e, w') \<Rightarrow>
               (\<lparr>status = 500,
                 body = ErrorBody ''Failed to process document'' (Some (message e))\<rparr>,
                unlink env (file_path file) w')))"

section \<open>Document deletion\<close>

text \<open>
  The accounting both deletion routes share, after \<open>document.delete\<close>: read the owner's
  counter, subtract the recorded size, keep the result when it is positive and 0
  otherwise.
\<close>

definition releaseStorage :: "document \<Rightarrow> string \<Rightarrow> world \<Rightarrow> (error + user) \<times> world" where
  "releaseStorage doc ownerId w =
     (let owner = findUser ownerId w;
          currentStorage =
            (case owner of None \<Rightarrow> 0
             | Some r \<Rightarrow> (case storageUsed r of None \<Rightarrow> 0 | Some s \<Rightarrow> s));
          nextStorage = currentStorage - fileSize doc
      in updateUser ownerId
           (\<lambda>r. r\<lparr>storageUsed := Some (if nextStorage > 0 then nextStorage else 0)\<rparr>) w)"

text \<open>\<open>DELETE /document/:id\<close>, for the owner or an admin session.\<close>

definition deleteOwnDocument :: "request \<Rightarrow> string \<Rightarrow> world \<Rightarrow> response \<times> world" where
  "deleteOwnDocument req i w =
     (case findDocument i w of
        None \<Rightarrow> (\<lparr>status = 404, body = ErrorBody ''Document not found'' None\<rparr>, w)
      | Some doc \<Rightarrow>
          (let isAdmin = (session_user_role req = Some ''admin'')
           in if \<not> isAdmin \<and> userId doc \<noteq> session_user_id req
              then (\<lparr>status = 403, body = ErrorBody ''Access denied'' None\<rparr>, w)
              else (case releaseStorage doc (userId doc) (deleteDocument (doc_id doc) w) of
                      (Inl e, w') \<Rightarrow>
                        (\<lparr>status = 500, body = ErrorBody ''Failed to delete document'' None\<rparr>, w')
                    | (Inr r, w') \<Rightarrow>
                        (\<lparr>status = 200, body = SuccessBody (Some ''Document deleted'')\<rparr>, w'))))"

text \<open>
  \<open>DELETE /users/:id/files/:documentId\<close> of the admin router, behind \<open>requireAdmin\<close>.
  The audit log entry it writes afterwards touches neither table and is left out.
\<close>

definition deleteUserFile :: "string \<Rightarrow> string \<Rightarrow> world \<Rightarrow> response \<times> world" where
  "deleteUserFile i documentId w =
     (case findDocument documentId w of
        None \<Rightarrow> (\<lparr>status = 404, body = ErrorBody ''Document not found'' None\<rparr>, w)
      | Some doc \<Rightarrow>
          if userId doc \<noteq> i
          then (\<lparr>status = 404, body = ErrorBody ''Document not found'' None\<rparr>, w)
          else (case releaseStorage doc i (deleteDocument documentId w) of
                  (Inl e, w') \<Rightarrow>
                    (\<lparr>status = 500, body = ErrorBody ''Failed to delete file'' None\<rparr>, w')
                | (Inr r, w') \<Rightarrow> (\<lparr>status = 200, body = SuccessBody None\<rparr>, w')))"

section \<open>The storage backfill\<close>

text \<open>
  \<open>document.groupBy\<close> by \<open>userId\<close> with the sum of \<open>fileSize\<close>: one summary for each
  owner that has a document.
\<close>

definition storageOf :: "document list \<Rightarrow> string \<Rightarrow> int" where
  "storageOf ds i = sum_list (map fileSize (filter (\<lambda>d. userId d = i) ds))"

definition groupBy :: "document list \<Rightarrow> (string \<times> int) list" where
  "groupBy ds = map (\<lambda>i. (i, storageOf ds i)) (remdups (map userId ds))"

text \<open>
  \<open>prisma.$transaction(updates)\<close>: the updates in order, all or nothing. The value
  written is \<open>BigInt(summary._sum.fileSize || 0)\<close>.
\<close>

fun transaction :: "(string \<times> int) list \<Rightarrow> world \<Rightarrow> error + world" where
  "transaction [] w = Inr w"
| "transaction ((i, fileSizeSum) # rest) w =
     (case updateUser i
             (\<lambda>r. r\<lparr>storageUsed := Some (if fileSizeSum = 0 then 0 else fileSizeSum)\<rparr>) w of
        (Inl e, w') \<Rightarrow> Inl e
      | (Inr r, w') \<Rightarrow> transaction rest w')"

definition run :: "world \<Rightarrow> (error + nat) \<times> world" where
  "run w =
     (let w0 = w\<lparr>users := map (\<lambda>r. r\<lparr>storageUsed := Some 0\<rparr>) (users w)\<rparr>;
          summaries = groupBy (documents w0)
      in case transaction summaries w0 of
           Inl e \<Rightarrow> (Inl e, w0)
         | Inr w1 \<Rightarrow> (Inr (length (users w1)), w1))"

section \<open>State predicates\<close>

text \<open>
  The predicates the storage claims are stated with. A \<open>storageUsed\<close> that is \<open>null\<close> is not
  negative: the handlers read it as 0. Document sizes are byte counts. Every document's
  owner exists: the foreign key of \<open>Document.userId\<close>.
\<close>

definition storageNonNegative :: "world \<Rightarrow> bool" where
  "storageNonNegative w
     = list_all (\<lambda>r. case storageUsed r of None \<Rightarrow> True | Some s \<Rightarrow> 0 \<le> s) (users w)"

definition sizesNonNegative :: "world \<Rightarrow> bool" where
  "sizesNonNegative w = list_all (\<lambda>d. 0 \<le> fileSize d) (documents w)"

definition ownersExist :: "world \<Rightarrow> bool" where
  "ownersExist w = list_all (\<lambda>d. findUser (userId d) w \<noteq> None) (documents w)"

section \<open>Sample data\<close>

text \<open>
  Two users, one stored document, one uploaded file and the collaborators of a request
  that goes through: the concrete inputs of the instances below. The sample parser
  stands for \<open>JSON.parse\<close> on the texts it is given here: it accepts the sample payload
  and rejects every other text.
\<close>

definition alice :: user where
  "alice = \<lparr>user_id = ''alice'', plan = ''free'', role = None, documentsUsed = 5,
            monthlyLimit = Number 5, storageUsed = Some 4096, lastReset = 0\<rparr>"

definition bob :: user where
  "bob = \<lparr>user_id = ''bob'', plan = ''premium'', role = None, documentsUsed = 50,
          monthlyLimit = Number 5, storageUsed = Some 500000, lastReset = 0\<rparr>"

definition slides :: document where
  "slides = \<lparr>doc_id = ''d0'', userId = ''bob'', filename = ''0-slides.pdf'',
             originalName = ''slides.pdf'', fileType = ''application/pdf'',
             fileSize = 1000000, language = ''english'', summary = Some (JStr (js ''s'')),
             flashcards = Some (JArr []), examQuestions = Some (JArr []), uploadDate = 0\<rparr>"

definition world0 :: world where
  "world0 = \<lparr>users = [alice, bob], documents = [slides],
             files = [''uploads/1-notes.pdf''], calls = 0\<rparr>"

definition notesPdf :: upload_file where
  "notesPdf = \<lparr>file_path = ''uploads/1-notes.pdf'', file_filename = ''1-notes.pdf'',
            file_originalname = ''notes.pdf'', file_mimetype = ''application/pdf'',
            file_size = 2048\<rparr>"

definition aliceUpload :: request where
  "aliceUpload = \<lparr>session_user_id = ''alice'', session_user_role = None,
                  body_language = None, req_file = Some notesPdf\<rparr>"

definition bobUpload :: request where
  "bobUpload = \<lparr>session_user_id = ''bob'', session_user_role = None,
                body_language = Some ''arabic'', req_file = Some notesPdf\<rparr>"

definition payload :: jsstring where
  \<open>payload = js ''{"summary":"s","flashcards":[],"examQuestions":[]}''\<close>

definition materials :: json where
  "materials = JObj [(js ''summary'', JStr (js ''s'')), (js ''flashcards'', JArr []),
                     (js ''examQuestions'', JArr [])]"

definition fencedReply :: jsstring where
  "fencedReply = js ''```json'' @ [0xA] @ payload @ [0xA] @ js ''```''"

definition env0 :: env where
  "env0 = \<lparr>now = 86400000,
           pdfParse = (\<lambda>p. Inr (replicate 60 0x61)),
           extractRawText = (\<lambda>p. Inl (DecoderError ''not a docx file'')),
           completion = (\<lambda>n l t. Inr (Some fencedReply)),
           JSON_parse = (\<lambda>s. if s = payload then Inr materials
                              else Inl (SyntaxError ''Unexpected token'')),
           createOutcome = Inr ''d1'',
           unlinkWorks = True\<rparr>"

definition notesDoc :: document where
  "notesDoc = \<lparr>doc_id = ''d1'', userId = ''bob'', filename = ''1-notes.pdf'',
               originalName = ''notes.pdf'', fileType = ''application/pdf'',
               fileSize = 2048, language = ''arabic'', summary = Some (JStr (js ''s'')),
               flashcards = Some (JArr []), examQuestions = Some (JArr []),
               uploadDate = 86400000\<rparr>"


section \<open>Properties of the store operations and of the upload steps\<close>

lemma find_map_update:
  assumes "\<And>r. user_id (f r) = user_id r"
  shows "find (\<lambda>u. user_id u = j) (map (\<lambda>v. if user_id v = i then f v else v) us)
         = (if j = i then map_option f (find (\<lambda>u. user_id u = i) us)
            else find (\<lambda>u. user_id u = j) us)"
  by (induction us) (auto simp: assms)

lemma findUser_id: "findUser i w = Some u \<Longrightarrow> user_id u = i"
  by (auto simp: findUser_def find_Some_iff)

lemma updateUser_found:
  assumes "findUser i w = Some u"
  shows "updateUser i f w
         = (Inr (f u), w\<lparr>users := map (\<lambda>v. if user_id v = i then f v else v) (users w)\<rparr>)"
  using assms by (simp add: updateUser_def)

lemma updateUser_missing:
  assumes "findUser i w = None"
  shows "\<exists>e. updateUser i f w = (Inl e, w)"
  using assms by (simp add: updateUser_def)

lemma updateUser_frame:
  "documents (snd (updateUser i f w)) = documents w"
  "files (snd (updateUser i f w)) = files w"
  "calls (snd (updateUser i f w)) = calls w"
  by (auto simp: updateUser_def split: option.splits)

lemma findUser_updateUser:
  assumes "\<And>r. user_id (f r) = user_id r"
  shows "findUser j (snd (updateUser i f w))
         = (if j = i then map_option f (findUser i w) else findUser j w)"
  using find_map_update [of f j i "users w", OF assms]
  by (auto simp: updateUser_def findUser_def split: option.splits)

lemma thirty_days:
  "((of_int d :: rat) / (1000 * 60 * 60 * 24) < 30) = (d < 2592000000)"
proof -
  have "((of_int d :: rat) / 86400000 < 30) = ((of_int d :: rat) < 30 * 86400000)"
    by (simp add: pos_divide_less_eq)
  also have "\<dots> = ((of_int d :: rat) < of_int 2592000000)" by simp
  also have "\<dots> = (d < 2592000000)" by (simp only: of_int_less_iff)
  finally show ?thesis by simp
qed

lemma reset_early:
  assumes "now env - lastReset u < 2592000000"
  shows "resetMonthlyUsageIfNeeded env u w = (Inr u, w)"
  using assms by (simp add: resetMonthlyUsageIfNeeded_def thirty_days Let_def)

lemma reset_due:
  assumes "2592000000 \<le> now env - lastReset u" "findUser (user_id u) w = Some u"
  shows "resetMonthlyUsageIfNeeded env u w
         = (Inr (u\<lparr>documentsUsed := 0, lastReset := now env\<rparr>),
            w\<lparr>users := map (\<lambda>v. if user_id v = user_id u
                                then v\<lparr>documentsUsed := 0, lastReset := now env\<rparr> else v)
                          (users w)\<rparr>)"
  using assms by (simp add: resetMonthlyUsageIfNeeded_def thirty_days Let_def updateUser_found)


lemma reset_frame:
  "documents (snd (resetMonthlyUsageIfNeeded env u w)) = documents w"
  "files (snd (resetMonthlyUsageIfNeeded env u w)) = files w"
  "calls (snd (resetMonthlyUsageIfNeeded env u w)) = calls w"
  by (simp_all add: resetMonthlyUsageIfNeeded_def Let_def updateUser_frame)

lemma reset_fst:
  assumes "findUser i w = Some u"
  shows "fst (resetMonthlyUsageIfNeeded env u w)
         = Inr (if now env - lastReset u < 2592000000 then u
                else u\<lparr>documentsUsed := 0, lastReset := now env\<rparr>)"
  using assms findUser_id [OF assms] by (simp add: reset_early reset_due)

lemma reset_find:
  assumes "findUser i w = Some u"
  shows "findUser j (snd (resetMonthlyUsageIfNeeded env u w))
         = (if j = i
            then Some (if now env - lastReset u < 2592000000 then u
                       else u\<lparr>documentsUsed := 0, lastReset := now env\<rparr>)
            else findUser j w)"
  using assms findUser_id [OF assms]
  by (simp add: resetMonthlyUsageIfNeeded_def thirty_days Let_def findUser_updateUser)

lemma reset_users_early:
  assumes "now env - lastReset u < 2592000000"
  shows "users (snd (resetMonthlyUsageIfNeeded env u w)) = users w"
  using assms by (simp add: reset_early)

lemma init_frame:
  "documents (snd (initStorage u w)) = documents w"
  "files (snd (initStorage u w)) = files w"
  "calls (snd (initStorage u w)) = calls w"
  by (simp_all add: initStorage_def updateUser_def split: option.splits)

lemma init_fst:
  assumes "findUser i w = Some u"
  shows "fst (initStorage u w)
         = Inr (u\<lparr>storageUsed := Some (case storageUsed u of None \<Rightarrow> 0 | Some s \<Rightarrow> s)\<rparr>)"
  using assms findUser_id [OF assms]
  by (auto simp: initStorage_def updateUser_found)

lemma init_find:
  assumes "findUser i w = Some u"
  shows "findUser j (snd (initStorage u w))
         = (if j = i
            then Some (u\<lparr>storageUsed := Some (case storageUsed u of None \<Rightarrow> 0 | Some s \<Rightarrow> s)\<rparr>)
            else findUser j w)"
proof (cases "storageUsed u")
  case None
  have "snd (initStorage u w) = snd (updateUser i (\<lambda>r. r\<lparr>storageUsed := Some 0\<rparr>) w)"
    using assms findUser_id [OF assms] None by (simp add: initStorage_def updateUser_found)
  then show ?thesis using assms None by (simp add: findUser_updateUser)
next
  case (Some s)
  then show ?thesis using assms by (auto simp: initStorage_def)
qed

lemma init_users_set:
  assumes "storageUsed u \<noteq> None"
  shows "users (snd (initStorage u w)) = users w"
  using assms by (auto simp: initStorage_def)


lemma length_trim_le: "length (trim s) \<le> length s"
proof -
  have "length (trim s) \<le> length (dropWhile isWhiteSpace s)"
    unfolding trim_def using length_dropWhile_le [of isWhiteSpace "rev (dropWhile isWhiteSpace s)"]
    by simp
  also have "\<dots> \<le> length s" by (rule length_dropWhile_le)
  finally show ?thesis .
qed

lemma unlink_frame:
  "users (unlink env p w) = users w"
  "documents (unlink env p w) = documents w"
  "calls (unlink env p w) = calls w"
  "findUser j (unlink env p w) = findUser j w"
  "findDocument k (unlink env p w) = findDocument k w"
  by (simp_all add: unlink_def findUser_def findDocument_def)

lemma unlink_removes: "unlinkWorks env \<Longrightarrow> p \<notin> set (files (unlink env p w))"
  by (simp add: unlink_def)

lemma generate_frame:
  "users (snd (generateStudyMaterials env t l w)) = users w"
  "documents (snd (generateStudyMaterials env t l w)) = documents w"
  "files (snd (generateStudyMaterials env t l w)) = files w"
  "calls (snd (generateStudyMaterials env t l w)) = calls w + 1"
  "findUser j (snd (generateStudyMaterials env t l w)) = findUser j w"
  "findDocument k (snd (generateStudyMaterials env t l w)) = findDocument k w"
  by (simp_all add: generateStudyMaterials_def Let_def findUser_def findDocument_def
        split: sum.splits option.splits)

lemma ingest_short:
  assumes "extractTextFromFile env (file_path file) (file_mimetype file) = Inr text"
    and "length text < 50"
  shows "ingest env req file lang w
         = (Inr \<lparr>status = 400, body = ErrorBody ''Could not extract enough text from file'' None\<rparr>,
            unlink env (file_path file) w)"
  using assms length_trim_le [of "text"] by (simp add: ingest_def)


lemma reset_result:
  assumes "findUser i w = Some u"
    and "resetMonthlyUsageIfNeeded env u w = (r, w1)"
  shows "r = Inr (if now env - lastReset u < 2592000000 then u
                  else u\<lparr>documentsUsed := 0, lastReset := now env\<rparr>)"
    and "findUser j w1 = (if j = i then Some (projr r) else findUser j w)"
    and "documents w1 = documents w" and "files w1 = files w" and "calls w1 = calls w"
    and "now env - lastReset u < 2592000000 \<Longrightarrow> users w1 = users w"
proof -
  show r: "r = Inr (if now env - lastReset u < 2592000000 then u
                  else u\<lparr>documentsUsed := 0, lastReset := now env\<rparr>)"
    using reset_fst [OF assms(1), of env] assms(2) by simp
  show "findUser j w1 = (if j = i then Some (projr r) else findUser j w)"
    using reset_find [OF assms(1), of j env] assms(2) r by simp
  show "documents w1 = documents w" "files w1 = files w" "calls w1 = calls w"
    using reset_frame [of env u w] assms(2) by simp_all
  show "users w1 = users w" if "now env - lastReset u < 2592000000"
    using reset_users_early [OF that, of w] assms(2) by simp
qed

lemma uploadTry_valid:
  assumes "findUser (session_user_id req) w = Some u"
    and "resetMonthlyUsageIfNeeded env u w = (Inr u1, w1)"
  shows "uploadTry env req file w
         = (if documentsUsed u1 \<ge> getMonthlyLimit u1
            then (Inr \<lparr>status = 403,
                       body = ErrorBody ''Monthly upload limit reached''
                         (Some (if plan u = ''premium'' \<or> role u = Some ''admin''
                                then ''Upgrade for more'' else ''Free limit reached''))\<rparr>,
                  unlink env (file_path file) (snd (initStorage u1 w1)))
            else ingest env req file
                   (if body_language req = Some ''arabic'' then ''arabic'' else ''english'')
                   (snd (initStorage u1 w1)))"
proof -
  let ?i = "session_user_id req"
  note r = reset_result [OF assms]
  have f1: "findUser ?i w1 = Some u1"
    using r(2) [of ?i] by simp
  let ?db = "u1\<lparr>storageUsed := Some (case storageUsed u1 of None \<Rightarrow> 0 | Some s \<Rightarrow> s)\<rparr>"
  have q: "initStorage u1 w1 = (Inr ?db, snd (initStorage u1 w1))"
    using init_fst [OF f1] by (metis prod.collapse)
  have pr: "plan u1 = plan u" "role u1 = role u"
    using r(1) by (auto split: if_splits)
  have db: "getMonthlyLimit ?db = getMonthlyLimit u1" "documentsUsed ?db = documentsUsed u1"
    "plan ?db = plan u" "role ?db = role u"
    using pr by (simp_all add: getMonthlyLimit_def)
  show ?thesis
    unfolding uploadTry_def Let_def assms option.case prod.case sum.case
    apply (subst q)
    apply (simp only: prod.case sum.case db)
    done
qed

lemma validated_find:
  assumes "findUser i w = Some u"
    and "resetMonthlyUsageIfNeeded env u w = (Inr u1, w1)"
  shows "findUser j (snd (initStorage u1 w1))
         = (if j = i
            then Some (u1\<lparr>storageUsed := Some (case storageUsed u of None \<Rightarrow> 0 | Some s \<Rightarrow> s)\<rparr>)
            else findUser j w)"
proof -
  note r = reset_result [OF assms]
  have f1: "findUser i w1 = Some u1"
    using r(2) [of i] by simp
  have s: "storageUsed u1 = storageUsed u" using r(1) by (auto split: if_splits)
  show ?thesis
    using init_find [OF f1, of j] r(2) [of j] by (simp add: s)
qed

lemma validated_frame:
  assumes "findUser i w = Some u"
    and "resetMonthlyUsageIfNeeded env u w = (Inr u1, w1)"
  shows "documents (snd (initStorage u1 w1)) = documents w"
    and "files (snd (initStorage u1 w1)) = files w"
    and "calls (snd (initStorage u1 w1)) = calls w"
    and "now env - lastReset u < 2592000000 \<Longrightarrow> storageUsed u \<noteq> None
         \<Longrightarrow> users (snd (initStorage u1 w1)) = users w"
proof -
  note r = reset_result [OF assms]
  show "documents (snd (initStorage u1 w1)) = documents w"
    "files (snd (initStorage u1 w1)) = files w"
    "calls (snd (initStorage u1 w1)) = calls w"
    by (simp_all add: init_frame r)
  show "users (snd (initStorage u1 w1)) = users w"
    if "now env - lastReset u < 2592000000" "storageUsed u \<noteq> None"
  proof -
    have "u1 = u" using r(1) that by simp
    then show ?thesis using that r(6) by (simp add: init_users_set)
  qed
qed

lemma createDocument_cases:
  "(\<exists>e. createDocument env d w = (Inl e, w))
   \<or> (\<exists>k. createOutcome env = Inr k \<and> findDocument k w = None
        \<and> createDocument env d w
            = (Inr (d\<lparr>doc_id := k, uploadDate := now env\<rparr>),
               w\<lparr>documents := documents w @ [d\<lparr>doc_id := k, uploadDate := now env\<rparr>]\<rparr>))"
  by (cases "createOutcome env") (auto simp: createDocument_def Let_def)

lemma ingest_outcome:
  assumes "findUser (session_user_id req) w = Some u"
    and "ingest env req file lang w = (r, w')"
  shows "(\<exists>doc. r = Inr \<lparr>status = 200, body = UploadBody doc\<rparr>
            \<and> documents w' = documents w @ [doc]
            \<and> findDocument (doc_id doc) w = None
            \<and> userId doc = session_user_id req
            \<and> fileSize doc = int (file_size file)
            \<and> users w'
                = map (\<lambda>v. if user_id v = session_user_id req
                           then v\<lparr>documentsUsed := documentsUsed v + 1,
                                  storageUsed := map_option (\<lambda>s. s + int (file_size file))
                                                   (storageUsed v)\<rparr>
                           else v) (users w))
       \<or> ((\<exists>e. r = Inl e)
             \<or> r = Inr \<lparr>status = 400,
                         body = ErrorBody ''Could not extract enough text from file'' None\<rparr>)
          \<and> documents w' = documents w \<and> users w' = users w"
proof (cases "extractTextFromFile env (file_path file) (file_mimetype file)")
  case (Inl e)
  then show ?thesis using assms(2) by (auto simp: ingest_def)
next
  case (Inr t)
  show ?thesis
  proof (cases "t = [] \<or> length (trim t) < 50")
    case True
    then show ?thesis using assms(2) Inr by (auto simp: ingest_def unlink_frame)
  next
    case False
    obtain g w1 where g: "generateStudyMaterials env t lang w = (g, w1)"
      by (cases "generateStudyMaterials env t lang w")
    have w1: "users w1 = users w" "documents w1 = documents w"
      "findUser (session_user_id req) w1 = Some u" "\<And>k. findDocument k w1 = findDocument k w"
      using generate_frame [where env=env and t=t and l=lang and w=w] g assms(1) by simp_all
    show ?thesis
    proof (cases g)
      case (Inl e)
      then show ?thesis using assms(2) Inr False g w1 by (auto simp: ingest_def)
    next
      case sm: (Inr sm)
      show ?thesis
      proof (cases "getProp sm ''summary''")
        case (Inl e)
        then show ?thesis using assms(2) Inr False g sm w1 by (auto simp: ingest_def)
      next
        case p1: (Inr a)
        have p2: "\<exists>b. getProp sm ''flashcards'' = Inr b"
          and p3: "\<exists>c. getProp sm ''examQuestions'' = Inr c"
          using p1 by (cases sm; simp)+
        then obtain b c where b: "getProp sm ''flashcards'' = Inr b"
          and c: "getProp sm ''examQuestions'' = Inr c" by blast
        let ?d = "\<lparr>doc_id = [], userId = session_user_id req,
                   filename = file_filename file, originalName = file_originalname file,
                   fileType = file_mimetype file, fileSize = int (file_size file),
                   language = lang, summary = a, flashcards = b, examQuestions = c,
                   uploadDate = 0\<rparr>"
        from createDocument_cases [of env ?d w1] show ?thesis
        proof (elim disjE exE conjE)
          fix e assume "createDocument env ?d w1 = (Inl e, w1)"
          then show ?thesis
            using assms(2) Inr False g sm p1 b c w1 by (auto simp: ingest_def)
        next
          fix k assume k: "findDocument k w1 = None"
            "createDocument env ?d w1
              = (Inr (?d\<lparr>doc_id := k, uploadDate := now env\<rparr>),
                 w1\<lparr>documents := documents w1 @ [?d\<lparr>doc_id := k, uploadDate := now env\<rparr>]\<rparr>)"
          define doc where "doc = ?d\<lparr>doc_id := k, uploadDate := now env\<rparr>"
          define w2 where "w2 = w1\<lparr>documents := documents w1 @ [doc]\<rparr>"
          have cd: "createDocument env ?d w1 = (Inr doc, w2)"
            using k(2) by (simp add: doc_def w2_def)
          have fu: "findUser (session_user_id req) w2 = Some u"
            using w1(3) by (simp add: findUser_def w2_def)
          have ing: "ingest env req file lang w
                     = (Inr \<lparr>status = 200, body = UploadBody doc\<rparr>,
                        unlink env (file_path file)
                          (w2\<lparr>users := map (\<lambda>v. if user_id v = session_user_id req
                                  then v\<lparr>documentsUsed := documentsUsed v + 1,
                                         storageUsed := map_option (\<lambda>s. s + int (file_size file))
                                                          (storageUsed v)\<rparr>
                                  else v) (users w2)\<rparr>))"
            using Inr False g sm p1 b c cd
            by (simp add: ingest_def updateUser_found [OF fu])
          have d: "doc_id doc = k" "userId doc = session_user_id req"
            "fileSize doc = int (file_size file)"
            by (simp_all add: doc_def)
          have "r = Inr \<lparr>status = 200, body = UploadBody doc\<rparr>"
            "documents w' = documents w @ [doc]"
            "users w' = map (\<lambda>v. if user_id v = session_user_id req
                                  then v\<lparr>documentsUsed := documentsUsed v + 1,
                                         storageUsed := map_option (\<lambda>s. s + int (file_size file))
                                                          (storageUsed v)\<rparr>
                                  else v) (users w)"
            using assms(2) ing w1(1,2) by (auto simp: unlink_frame w2_def)
          moreover have "findDocument (doc_id doc) w = None"
            using k(1) w1(4) d(1) by simp
          ultimately show ?thesis using d by blast
        qed
      qed
    qed
  qed
qed


lemma upload_outcome:
  assumes "req_file req = Some file"
    and "findUser (session_user_id req) w = Some u"
    and "resetMonthlyUsageIfNeeded env u w = (Inr u1, w1)"
  shows "(documentsUsed u1 \<ge> getMonthlyLimit u1
          \<and> status (fst (upload env req w)) = 403
          \<and> documents (snd (upload env req w)) = documents w
          \<and> users (snd (upload env req w)) = users (snd (initStorage u1 w1)))
       \<or> (\<not> documentsUsed u1 \<ge> getMonthlyLimit u1
          \<and> status (fst (upload env req w)) = 200
          \<and> (\<exists>doc. body (fst (upload env req w)) = UploadBody doc
                \<and> documents (snd (upload env req w)) = documents w @ [doc]
                \<and> findDocument (doc_id doc) w = None
                \<and> userId doc = session_user_id req
                \<and> fileSize doc = int (file_size file))
          \<and> users (snd (upload env req w))
              = map (\<lambda>v. if user_id v = session_user_id req
                         then v\<lparr>documentsUsed := documentsUsed v + 1,
                                storageUsed := map_option (\<lambda>s. s + int (file_size file))
                                                 (storageUsed v)\<rparr>
                         else v) (users (snd (initStorage u1 w1))))
       \<or> (\<not> documentsUsed u1 \<ge> getMonthlyLimit u1
          \<and> (status (fst (upload env req w)) = 400 \<or> status (fst (upload env req w)) = 500)
          \<and> documents (snd (upload env req w)) = documents w
          \<and> users (snd (upload env req w)) = users (snd (initStorage u1 w1)))"
proof (cases "documentsUsed u1 \<ge> getMonthlyLimit u1")
  case True
  then show ?thesis
    unfolding upload_def assms(1) option.case uploadTry_valid [OF assms(2,3)]
    using validated_frame [OF assms(2,3)] by (simp add: unlink_frame)
next
  case False
  let ?w2 = "snd (initStorage u1 w1)"
  let ?lang = "if body_language req = Some ''arabic'' then ''arabic'' else ''english''"
  obtain r w' where ing: "ingest env req file ?lang ?w2 = (r, w')"
    by (cases "ingest env req file ?lang ?w2")
  have fu: "findUser (session_user_id req) ?w2
            = Some (u1\<lparr>storageUsed := Some (case storageUsed u of None \<Rightarrow> 0 | Some s \<Rightarrow> s)\<rparr>)"
    using validated_find [OF assms(2,3), of "session_user_id req"] by simp
  have fd: "findDocument k ?w2 = findDocument k w" for k
    using validated_frame(1) [OF assms(2,3)] by (simp add: findDocument_def)
  have up: "upload env req w
            = (case r of Inr res \<Rightarrow> (res, w')
               | Inl e \<Rightarrow> (\<lparr>status = 500,
                              body = ErrorBody ''Failed to process document'' (Some (message e))\<rparr>,
                            unlink env (file_path file) w'))"
    unfolding upload_def assms(1) option.case uploadTry_valid [OF assms(2,3)]
    using False ing by (simp split: sum.splits)
  from ingest_outcome [OF fu ing] show ?thesis
  proof (elim disjE exE conjE)
    fix doc
    assume "r = Inr \<lparr>status = 200, body = UploadBody doc\<rparr>"
      "documents w' = documents ?w2 @ [doc]" "findDocument (doc_id doc) ?w2 = None"
      "userId doc = session_user_id req" "fileSize doc = int (file_size file)"
      "users w' = map (\<lambda>v. if user_id v = session_user_id req
                         then v\<lparr>documentsUsed := documentsUsed v + 1,
                                storageUsed := map_option (\<lambda>s. s + int (file_size file))
                                                 (storageUsed v)\<rparr>
                         else v) (users ?w2)"
    then show ?thesis
      using False up validated_frame(1) [OF assms(2,3)] fd by simp
  next
    fix e assume "r = Inl e" "documents w' = documents ?w2" "users w' = users ?w2"
    then show ?thesis
      using False up validated_frame(1) [OF assms(2,3)] by (simp add: unlink_frame)
  next
    assume "r = Inr \<lparr>status = 400,
                      body = ErrorBody ''Could not extract enough text from file'' None\<rparr>"
      "documents w' = documents ?w2" "users w' = users ?w2"
    then show ?thesis
      using False up validated_frame(1) [OF assms(2,3)] by simp
  qed
qed


lemma findUser_cong: "users w = users w' \<Longrightarrow> findUser j w = findUser j w'"
  by (simp add: findUser_def)

lemma generate_fst_calls:
  assumes "calls w = calls w'"
  shows "fst (generateStudyMaterials env t l w) = fst (generateStudyMaterials env t l w')"
  using assms by (simp add: generateStudyMaterials_def Let_def split: sum.splits option.splits)

lemma getProp_defined:
  assumes "sm \<noteq> JNull"
  shows "\<exists>v. getProp sm k = Inr v"
  using assms by (cases sm) simp_all

lemma createDocument_fails:
  assumes "createOutcome env = Inl e
           \<or> (\<exists>k. createOutcome env = Inr k \<and> findDocument k w \<noteq> None
                \<and> e = StoreError ''Unique constraint failed'')"
  shows "createDocument env d w = (Inl e, w)"
  using assms by (auto simp: createDocument_def)

lemma ingest_create_fails:
  assumes "extractTextFromFile env (file_path file) (file_mimetype file) = Inr extracted"
    and "50 \<le> length (trim extracted)"
    and "fst (generateStudyMaterials env extracted lang w) = Inr sm"
    and "sm \<noteq> JNull"
    and "createOutcome env = Inl e
         \<or> (\<exists>k. createOutcome env = Inr k \<and> findDocument k w \<noteq> None
              \<and> e = StoreError ''Unique constraint failed'')"
  shows "ingest env req file lang w = (Inl e, snd (generateStudyMaterials env extracted lang w))"
proof -
  define w1 where "w1 = snd (generateStudyMaterials env extracted lang w)"
  have g: "generateStudyMaterials env extracted lang w = (Inr sm, w1)"
    using assms(3) unfolding w1_def by (metis prod.collapse)
  have ne: "extracted \<noteq> []" using assms(2) by (auto simp: trim_def)
  obtain a b c where p: "getProp sm ''summary'' = Inr a"
    "getProp sm ''flashcards'' = Inr b" "getProp sm ''examQuestions'' = Inr c"
    using getProp_defined [OF assms(4)] by metis
  have "createOutcome env = Inl e
        \<or> (\<exists>k. createOutcome env = Inr k \<and> findDocument k w1 \<noteq> None
             \<and> e = StoreError ''Unique constraint failed'')"
    using assms(5) unfolding w1_def by (simp add: generate_frame)
  note cf = createDocument_fails [OF this]
  have "ingest env req file lang w = (Inl e, w1)"
    using assms(1,2) ne by (simp add: ingest_def g p cf)
  then show ?thesis by (simp add: w1_def)
qed

section \<open>Properties of the deletion routes\<close>

lemma findDocument_id: "findDocument k w = Some d \<Longrightarrow> doc_id d = k"
  by (auto simp: findDocument_def find_Some_iff)

lemma findUser_deleteDocument: "findUser j (deleteDocument k w) = findUser j w"
  by (simp add: findUser_def deleteDocument_def)

lemma releaseStorage_found:
  assumes "findUser i w = Some owner"
  shows "releaseStorage doc i w
         = (Inr (owner\<lparr>storageUsed :=
                    Some (max 0 ((case storageUsed owner of None \<Rightarrow> 0 | Some s \<Rightarrow> s)
                                 - fileSize doc))\<rparr>),
            w\<lparr>users := map (\<lambda>v. if user_id v = i
                               then v\<lparr>storageUsed :=
                                   Some (max 0 ((case storageUsed owner of None \<Rightarrow> 0 | Some s \<Rightarrow> s)
                                                - fileSize doc))\<rparr>
                               else v) (users w)\<rparr>)"
proof -
  have m: "(if 0 < n then n else 0) = max 0 n" for n :: int by simp
  show ?thesis
    using assms by (simp add: releaseStorage_def Let_def updateUser_found m del: max.absorb1 max.absorb2 max.absorb3 max.absorb4)
qed

lemma releaseStorage_find:
  assumes "findUser i w = Some owner"
  shows "findUser j (snd (releaseStorage doc i w))
         = (if j = i
            then Some (owner\<lparr>storageUsed :=
                    Some (max 0 ((case storageUsed owner of None \<Rightarrow> 0 | Some s \<Rightarrow> s)
                                 - fileSize doc))\<rparr>)
            else findUser j w)"
  using assms find_map_update [of "\<lambda>v. v\<lparr>storageUsed :=
                                   Some (max 0 ((case storageUsed owner of None \<Rightarrow> 0 | Some s \<Rightarrow> s)
                                                - fileSize doc))\<rparr>" j i "users w"]
  by (simp add: releaseStorage_found [OF assms] findUser_def)

lemma releaseStorage_documents: "documents (snd (releaseStorage doc i w)) = documents w"
  by (simp add: releaseStorage_def Let_def updateUser_frame)

lemma deleteOwnDocument_done:
  assumes "findDocument k w = Some d"
    and "session_user_role req = Some ''admin'' \<or> userId d = session_user_id req"
    and "findUser (userId d) w = Some owner"
  shows "fst (deleteOwnDocument req k w)
         = \<lparr>status = 200, body = SuccessBody (Some ''Document deleted'')\<rparr>"
    and "findUser j (snd (deleteOwnDocument req k w))
         = (if j = userId d
            then Some (owner\<lparr>storageUsed :=
                    Some (max 0 ((case storageUsed owner of None \<Rightarrow> 0 | Some s \<Rightarrow> s)
                                 - fileSize d))\<rparr>)
            else findUser j w)"
    and "documents (snd (deleteOwnDocument req k w))
         = filter (\<lambda>x. doc_id x \<noteq> k) (documents w)"
proof -
  have o: "findUser (userId d) (deleteDocument (doc_id d) w) = Some owner"
    using assms(3) by (simp add: findUser_deleteDocument)
  have e: "deleteOwnDocument req k w
           = (\<lparr>status = 200, body = SuccessBody (Some ''Document deleted'')\<rparr>,
              snd (releaseStorage d (userId d) (deleteDocument (doc_id d) w)))"
    using assms(1,2) by (auto simp: deleteOwnDocument_def Let_def releaseStorage_found [OF o])
  show "fst (deleteOwnDocument req k w)
         = \<lparr>status = 200, body = SuccessBody (Some ''Document deleted'')\<rparr>"
    by (simp add: e)
  show "findUser j (snd (deleteOwnDocument req k w))
         = (if j = userId d
            then Some (owner\<lparr>storageUsed :=
                    Some (max 0 ((case storageUsed owner of None \<Rightarrow> 0 | Some s \<Rightarrow> s)
                                 - fileSize d))\<rparr>)
            else findUser j w)"
    by (simp add: e releaseStorage_find [OF o] findUser_deleteDocument)
  show "documents (snd (deleteOwnDocument req k w))
         = filter (\<lambda>x. doc_id x \<noteq> k) (documents w)"
    using findDocument_id [OF assms(1)]
    by (simp add: e releaseStorage_documents) (simp add: deleteDocument_def)
qed

lemma deleteUserFile_done:
  assumes "findDocument k w = Some d"
    and "userId d = i"
    and "findUser i w = Some owner"
  shows "fst (deleteUserFile i k w) = \<lparr>status = 200, body = SuccessBody None\<rparr>"
    and "findUser j (snd (deleteUserFile i k w))
         = (if j = i
            then Some (owner\<lparr>storageUsed :=
                    Some (max 0 ((case storageUsed owner of None \<Rightarrow> 0 | Some s \<Rightarrow> s)
                                 - fileSize d))\<rparr>)
            else findUser j w)"
    and "documents (snd (deleteUserFile i k w))
         = filter (\<lambda>x. doc_id x \<noteq> k) (documents w)"
proof -
  have o: "findUser i (deleteDocument k w) = Some owner"
    using assms(3) by (simp add: findUser_deleteDocument)
  have e: "deleteUserFile i k w
           = (\<lparr>status = 200, body = SuccessBody None\<rparr>,
              snd (releaseStorage d i (deleteDocument k w)))"
    using assms(1,2) by (auto simp: deleteUserFile_def releaseStorage_found [OF o])
  show "fst (deleteUserFile i k w) = \<lparr>status = 200, body = SuccessBody None\<rparr>"
    by (simp add: e)
  show "findUser j (snd (deleteUserFile i k w))
         = (if j = i
            then Some (owner\<lparr>storageUsed :=
                    Some (max 0 ((case storageUsed owner of None \<Rightarrow> 0 | Some s \<Rightarrow> s)
                                 - fileSize d))\<rparr>)
            else findUser j w)"
    by (simp add: e releaseStorage_find [OF o] findUser_deleteDocument)
  show "documents (snd (deleteUserFile i k w))
         = filter (\<lambda>x. doc_id x \<noteq> k) (documents w)"
    by (simp add: e releaseStorage_documents) (simp add: deleteDocument_def)
qed

lemma find_append_fresh:
  assumes "find P xs = None" "P x"
  shows "find P (xs @ [x]) = Some x"
  using assms by (induction xs) (auto split: if_splits)


section \<open>Properties of the backfill\<close>

lemma map_of_groupBy:
  "map_of (groupBy ds) i
   = (if i \<in> userId ` set ds then Some (storageOf ds i) else None)"
proof -
  have "map_of (map (\<lambda>i. (i, f i)) xs) i = (if i \<in> set xs then Some (f i) else None)"
    for f :: "string \<Rightarrow> int" and xs
    by (induction xs) auto
  then show ?thesis by (simp add: groupBy_def)
qed

lemma distinct_groupBy: "distinct (map fst (groupBy ds))"
  by (simp add: groupBy_def comp_def)

lemma storageOf_no_documents:
  assumes "i \<notin> userId ` set ds"
  shows "storageOf ds i = 0"
proof -
  have "filter (\<lambda>d. userId d = i) ds = []"
    using assms by (auto simp: filter_empty_conv)
  then show ?thesis by (simp add: storageOf_def)
qed

lemma transaction_users:
  assumes "distinct (map fst xs)"
    and "\<forall>k \<in> fst ` set xs. findUser k w \<noteq> None"
  shows "transaction xs w
         = Inr (w\<lparr>users := map (\<lambda>r. case map_of xs (user_id r) of
                                      None \<Rightarrow> r
                                    | Some t \<Rightarrow> r\<lparr>storageUsed := Some t\<rparr>) (users w)\<rparr>)"
  using assms
proof (induction xs arbitrary: w)
  case Nil
  then show ?case by (simp add: map_idI)
next
  case (Cons x xs)
  obtain i t where x: "x = (i, t)" by (cases x)
  obtain u where u: "findUser i w = Some u"
    using Cons.prems(2) x by auto
  let ?f = "\<lambda>r. r\<lparr>storageUsed := Some t\<rparr>"
  let ?w' = "w\<lparr>users := map (\<lambda>v. if user_id v = i then ?f v else v) (users w)\<rparr>"
  have up: "updateUser i ?f w = (Inr (?f u), ?w')"
    by (rule updateUser_found [OF u])
  have keep: "\<forall>k \<in> fst ` set xs. findUser k ?w' \<noteq> None"
  proof
    fix k assume "k \<in> fst ` set xs"
    then have "findUser k w \<noteq> None" using Cons.prems(2) by auto
    moreover have "findUser k ?w' = (if k = i then map_option ?f (findUser i w) else findUser k w)"
      using find_map_update [of ?f k i "users w"] by (simp add: findUser_def)
    ultimately show "findUser k ?w' \<noteq> None" using u by simp
  qed
  have d: "distinct (map fst xs)" and fresh: "map_of xs i = None"
    using Cons.prems(1) x by (simp_all add: map_of_eq_None_iff)
  have ih: "transaction xs ?w'
            = Inr (?w'\<lparr>users := map (\<lambda>r. case map_of xs (user_id r) of
                                      None \<Rightarrow> r
                                    | Some t \<Rightarrow> r\<lparr>storageUsed := Some t\<rparr>) (users ?w')\<rparr>)"
    by (rule Cons.IH [OF d keep])
  have m: "map (\<lambda>r. case map_of xs (user_id r) of None \<Rightarrow> r
                  | Some t \<Rightarrow> r\<lparr>storageUsed := Some t\<rparr>)
            (map (\<lambda>v. if user_id v = i then ?f v else v) (users w))
        = map (\<lambda>r. case map_of (x # xs) (user_id r) of None \<Rightarrow> r
                    | Some t \<Rightarrow> r\<lparr>storageUsed := Some t\<rparr>) (users w)"
    using fresh by (auto simp: x)
  have "transaction (x # xs) w = transaction xs ?w'"
    using up by (simp add: x)
  also have "\<dots> = Inr (?w'\<lparr>users := map (\<lambda>r. case map_of xs (user_id r) of
                                      None \<Rightarrow> r
                                    | Some t \<Rightarrow> r\<lparr>storageUsed := Some t\<rparr>) (users ?w')\<rparr>)"
    by (rule ih)
  also have "\<dots> = Inr (w\<lparr>users := map (\<lambda>r. case map_of (x # xs) (user_id r) of
                                      None \<Rightarrow> r
                                    | Some t \<Rightarrow> r\<lparr>storageUsed := Some t\<rparr>) (users w)\<rparr>)"
    using m by simp
  finally show ?case .
qed

lemma findUser_map_storage:
  "findUser k (w\<lparr>users := map (\<lambda>r. r\<lparr>storageUsed := g r\<rparr>) (users w)\<rparr>)
   = map_option (\<lambda>r. r\<lparr>storageUsed := g r\<rparr>) (findUser k w)"
proof -
  have "find (\<lambda>u. user_id u = k) (map (\<lambda>r. r\<lparr>storageUsed := g r\<rparr>) us)
        = map_option (\<lambda>r. r\<lparr>storageUsed := g r\<rparr>) (find (\<lambda>u. user_id u = k) us)" for us
    by (induction us) auto
  then show ?thesis by (simp add: findUser_def)
qed

lemma run_result:
  assumes "ownersExist w"
  shows "run w
         = (Inr (length (users w)),
            w\<lparr>users := map (\<lambda>r. r\<lparr>storageUsed := Some (storageOf (documents w) (user_id r))\<rparr>)
                          (users w)\<rparr>)"
proof -
  let ?w0 = "w\<lparr>users := map (\<lambda>r. r\<lparr>storageUsed := Some 0\<rparr>) (users w)\<rparr>"
  let ?xs = "groupBy (documents w)"
  have ex: "\<forall>k \<in> fst ` set ?xs. findUser k ?w0 \<noteq> None"
  proof
    fix k assume "k \<in> fst ` set ?xs"
    then have "k \<in> userId ` set (documents w)" by (auto simp: groupBy_def)
    then have "findUser k w \<noteq> None"
      using assms by (auto simp: ownersExist_def list_all_iff)
    then show "findUser k ?w0 \<noteq> None"
      by (simp add: findUser_map_storage)
  qed
  have t: "transaction ?xs ?w0
           = Inr (?w0\<lparr>users := map (\<lambda>r. case map_of ?xs (user_id r) of
                                      None \<Rightarrow> r
                                    | Some t \<Rightarrow> r\<lparr>storageUsed := Some t\<rparr>) (users ?w0)\<rparr>)"
    by (rule transaction_users [OF distinct_groupBy ex])
  have m: "map (\<lambda>r. case map_of ?xs (user_id r) of None \<Rightarrow> r
                    | Some t \<Rightarrow> r\<lparr>storageUsed := Some t\<rparr>) (users ?w0)
           = map (\<lambda>r. r\<lparr>storageUsed := Some (storageOf (documents w) (user_id r))\<rparr>) (users w)"
    by (auto simp: map_of_groupBy storageOf_no_documents)
  show ?thesis
    unfolding run_def Let_def
    using t m by simp
qed


lemma ownersExist_run:
  assumes "ownersExist w"
  shows "ownersExist (snd (run w))"
  using assms
  by (auto simp: run_result [OF assms] ownersExist_def list_all_iff findUser_map_storage)

section \<open>Preservation of the storage invariant\<close>

lemma storageNonNegative_users:
  "users w' = users w \<Longrightarrow> storageNonNegative w' = storageNonNegative w"
  by (simp add: storageNonNegative_def)

lemma storageNonNegative_updateUser:
  assumes "storageNonNegative w"
    and "\<And>r. (case storageUsed r of None \<Rightarrow> True | Some s \<Rightarrow> 0 \<le> s)
             \<Longrightarrow> (case storageUsed (f r) of None \<Rightarrow> True | Some s \<Rightarrow> 0 \<le> s)"
  shows "storageNonNegative (snd (updateUser i f w))"
proof (cases "findUser i w")
  case None
  then show ?thesis using assms(1) by (simp add: updateUser_def)
next
  case (Some u)
  have "list_all (\<lambda>r. case storageUsed r of None \<Rightarrow> True | Some s \<Rightarrow> 0 \<le> s)
          (map (\<lambda>v. if user_id v = i then f v else v) (users w))"
    unfolding list_all_iff
  proof
    fix r assume "r \<in> set (map (\<lambda>v. if user_id v = i then f v else v) (users w))"
    then obtain v where v: "v \<in> set (users w)" "r = (if user_id v = i then f v else v)"
      by auto
    have "case storageUsed v of None \<Rightarrow> True | Some s \<Rightarrow> 0 \<le> s"
      using assms(1) v(1) by (simp add: storageNonNegative_def list_all_iff)
    then show "case storageUsed r of None \<Rightarrow> True | Some s \<Rightarrow> 0 \<le> s"
      using assms(2) [of v] v(2) by (cases "user_id v = i") simp_all
  qed
  then show ?thesis using Some by (simp add: updateUser_def storageNonNegative_def)
qed

lemma storageNonNegative_reset:
  assumes "storageNonNegative w"
  shows "storageNonNegative (snd (resetMonthlyUsageIfNeeded env u w))"
  using assms
  by (simp add: resetMonthlyUsageIfNeeded_def Let_def storageNonNegative_updateUser)

lemma storageNonNegative_init:
  assumes "storageNonNegative w"
  shows "storageNonNegative (snd (initStorage u w))"
proof (cases "storageUsed u")
  case None
  have "snd (initStorage u w) = snd (updateUser (user_id u) (\<lambda>r. r\<lparr>storageUsed := Some 0\<rparr>) w)"
    using None by (simp add: initStorage_def split: prod.splits sum.splits)
  then show ?thesis using assms by (simp add: storageNonNegative_updateUser)
next
  case (Some s)
  then show ?thesis using assms by (simp add: initStorage_def)
qed

lemma storageNonNegative_increment:
  assumes "storageNonNegative w"
  shows "storageNonNegative
           (w\<lparr>users := map (\<lambda>v. if user_id v = i
                                then v\<lparr>documentsUsed := documentsUsed v + 1,
                                       storageUsed := map_option (\<lambda>s. s + int n) (storageUsed v)\<rparr>
                                else v) (users w)\<rparr>)"
  using assms by (auto simp: storageNonNegative_def list_all_iff split: option.splits)

lemma storageNonNegative_upload:
  assumes "storageNonNegative w"
  shows "storageNonNegative (snd (upload env req w))"
proof (cases "req_file req")
  case None
  then show ?thesis using assms by (simp add: upload_def)
next
  case f: (Some fl)
  show ?thesis
  proof (cases "findUser (session_user_id req) w")
    case None
    then show ?thesis
      using assms f
      by (simp add: upload_def uploadTry_def storageNonNegative_users [OF unlink_frame(1)])
  next
    case u: (Some u)
    obtain u1 w1 where rs: "resetMonthlyUsageIfNeeded env u w = (Inr u1, w1)"
      using reset_fst [OF u, of env] by (metis prod.collapse)
    let ?w2 = "snd (initStorage u1 w1)"
    have "storageNonNegative w1"
      using storageNonNegative_reset [OF assms, of env u] rs by simp
    then have w2: "storageNonNegative ?w2" by (rule storageNonNegative_init)
    from upload_outcome [OF f u rs]
    consider "users (snd (upload env req w)) = users ?w2"
      | "users (snd (upload env req w))
          = map (\<lambda>v. if user_id v = session_user_id req
                     then v\<lparr>documentsUsed := documentsUsed v + 1,
                            storageUsed := map_option (\<lambda>s. s + int (file_size fl))
                                             (storageUsed v)\<rparr>
                     else v) (users ?w2)"
      by auto
    then show ?thesis
    proof cases
      case 1
      then show ?thesis using w2 storageNonNegative_users [OF 1] by simp
    next
      case 2
      have "users (snd (upload env req w))
            = users (?w2\<lparr>users := map (\<lambda>v. if user_id v = session_user_id req
                     then v\<lparr>documentsUsed := documentsUsed v + 1,
                            storageUsed := map_option (\<lambda>s. s + int (file_size fl))
                                             (storageUsed v)\<rparr>
                     else v) (users ?w2)\<rparr>)"
        using 2 by simp
      from storageNonNegative_users [OF this] show ?thesis
        using storageNonNegative_increment [OF w2] by simp
    qed
  qed
qed

lemma storageNonNegative_release:
  assumes "storageNonNegative w"
  shows "storageNonNegative (snd (releaseStorage doc i w))"
  using assms by (simp add: releaseStorage_def Let_def storageNonNegative_updateUser)

lemma storageNonNegative_deleteDocument:
  "storageNonNegative (deleteDocument k w) = storageNonNegative w"
  by (simp add: storageNonNegative_def deleteDocument_def)

lemma storageNonNegative_deleteOwn:
  assumes "storageNonNegative w"
  shows "storageNonNegative (snd (deleteOwnDocument req k w))"
proof (cases "findDocument k w")
  case None
  then show ?thesis using assms by (simp add: deleteOwnDocument_def)
next
  case (Some d)
  let ?p = "releaseStorage d (userId d) (deleteDocument (doc_id d) w)"
  have r: "storageNonNegative (snd ?p)"
    using assms by (simp add: storageNonNegative_release storageNonNegative_deleteDocument)
  show ?thesis
  proof (cases "session_user_role req \<noteq> Some ''admin'' \<and> userId d \<noteq> session_user_id req")
    case True
    then show ?thesis using assms Some by (simp add: deleteOwnDocument_def Let_def)
  next
    case False
    have "snd (deleteOwnDocument req k w) = snd ?p"
      using Some False
      by (cases ?p; cases "fst ?p") (auto simp: deleteOwnDocument_def Let_def)
    then show ?thesis using r by simp
  qed
qed

lemma storageNonNegative_deleteUserFile:
  assumes "storageNonNegative w"
  shows "storageNonNegative (snd (deleteUserFile i k w))"
proof (cases "findDocument k w")
  case None
  then show ?thesis using assms by (simp add: deleteUserFile_def)
next
  case (Some d)
  let ?p = "releaseStorage d i (deleteDocument k w)"
  have r: "storageNonNegative (snd ?p)"
    using assms by (simp add: storageNonNegative_release storageNonNegative_deleteDocument)
  show ?thesis
  proof (cases "userId d \<noteq> i")
    case True
    then show ?thesis using assms Some by (simp add: deleteUserFile_def)
  next
    case False
    have "snd (deleteUserFile i k w) = snd ?p"
      using Some False
      by (cases ?p; cases "fst ?p") (auto simp: deleteUserFile_def)
    then show ?thesis using r by simp
  qed
qed

lemma storageNonNegative_transaction:
  assumes "transaction xs w = Inr w'"
    and "storageNonNegative w"
    and "\<forall>x \<in> set xs. 0 \<le> snd x"
  shows "storageNonNegative w'"
  using assms
proof (induction xs arbitrary: w)
  case Nil
  then show ?case by simp
next
  case (Cons x xs)
  obtain i t where x: "x = (i, t)" by (cases x)
  let ?f = "\<lambda>r. r\<lparr>storageUsed := Some t\<rparr>"
  obtain r w1 where up: "updateUser i ?f w = (r, w1)" by (cases "updateUser i ?f w")
  have t: "0 \<le> t" using Cons.prems(3) x by simp
  have w1: "storageNonNegative w1"
    using storageNonNegative_updateUser [OF Cons.prems(2), of ?f i] up t by simp
  have "transaction xs w1 = Inr w'"
    using Cons.prems(1) up by (cases r) (simp_all add: x)
  then show ?case
    using Cons.IH [OF _ w1] Cons.prems(3) by simp
qed

lemma storageOf_nonneg:
  assumes "sizesNonNegative w"
  shows "0 \<le> storageOf (documents w) i"
  using assms
  by (auto simp: storageOf_def sizesNonNegative_def list_all_iff intro!: sum_list_nonneg)

lemma storageNonNegative_run:
  assumes "sizesNonNegative w"
  shows "storageNonNegative (snd (run w))"
proof -
  let ?w0 = "w\<lparr>users := map (\<lambda>r. r\<lparr>storageUsed := Some 0\<rparr>) (users w)\<rparr>"
  have w0: "storageNonNegative ?w0"
    by (simp add: storageNonNegative_def list_all_iff)
  have g: "\<forall>x \<in> set (groupBy (documents ?w0)). 0 \<le> snd x"
    using storageOf_nonneg [OF assms] by (auto simp: groupBy_def)
  show ?thesis
  proof (cases "transaction (groupBy (documents ?w0)) ?w0")
    case (Inl e)
    then show ?thesis using w0 by (simp add: run_def Let_def)
  next
    case (Inr w1)
    then show ?thesis
      using storageNonNegative_transaction [OF Inr w0 g] by (simp add: run_def Let_def)
  qed
qed


lemma sizesNonNegative_subset:
  assumes "sizesNonNegative w" "set (documents w') \<subseteq> set (documents w)"
  shows "sizesNonNegative w'"
  using assms by (auto simp: sizesNonNegative_def list_all_iff)

lemma sizesNonNegative_upload:
  assumes "sizesNonNegative w"
  shows "sizesNonNegative (snd (upload env req w))"
proof (cases "req_file req")
  case None
  then show ?thesis using assms by (simp add: upload_def)
next
  case f: (Some fl)
  show ?thesis
  proof (cases "findUser (session_user_id req) w")
    case None
    then show ?thesis
      using assms f sizesNonNegative_subset [OF assms, of "unlink env (file_path fl) w"]
      by (simp add: upload_def uploadTry_def unlink_frame)
  next
    case u: (Some u)
    obtain u1 w1 where rs: "resetMonthlyUsageIfNeeded env u w = (Inr u1, w1)"
      using reset_fst [OF u, of env] by (metis prod.collapse)
    from upload_outcome [OF f u rs]
    consider "documents (snd (upload env req w)) = documents w"
      | doc where "documents (snd (upload env req w)) = documents w @ [doc]"
          "fileSize doc = int (file_size fl)"
      by auto
    then show ?thesis
    proof cases
      case 1
      then show ?thesis using sizesNonNegative_subset [OF assms] by simp
    next
      case 2
      then show ?thesis using assms by (simp add: sizesNonNegative_def)
    qed
  qed
qed

lemma documents_deleteOwn:
  "set (documents (snd (deleteOwnDocument req k w))) \<subseteq> set (documents w)"
proof (cases "findDocument k w")
  case None
  then show ?thesis by (simp add: deleteOwnDocument_def)
next
  case (Some d)
  let ?p = "releaseStorage d (userId d) (deleteDocument (doc_id d) w)"
  have "documents (snd (deleteOwnDocument req k w)) = documents w
        \<or> documents (snd (deleteOwnDocument req k w)) = documents (snd ?p)"
    using Some by (cases ?p; cases "fst ?p") (auto simp: deleteOwnDocument_def Let_def)
  then show ?thesis
    by (auto simp: releaseStorage_documents deleteDocument_def)
qed

lemma documents_deleteUserFile:
  "set (documents (snd (deleteUserFile i k w))) \<subseteq> set (documents w)"
proof (cases "findDocument k w")
  case None
  then show ?thesis by (simp add: deleteUserFile_def)
next
  case (Some d)
  let ?p = "releaseStorage d i (deleteDocument k w)"
  have "documents (snd (deleteUserFile i k w)) = documents w
        \<or> documents (snd (deleteUserFile i k w)) = documents (snd ?p)"
    using Some by (cases ?p; cases "fst ?p") (auto simp: deleteUserFile_def)
  then show ?thesis
    by (auto simp: releaseStorage_documents deleteDocument_def)
qed

lemma documents_transaction:
  assumes "transaction xs w = Inr w'"
  shows "documents w' = documents w"
  using assms
proof (induction xs arbitrary: w)
  case Nil
  then show ?case by simp
next
  case (Cons x xs)
  obtain i t where x: "x = (i, t)" by (cases x)
  let ?f = "\<lambda>r. r\<lparr>storageUsed := Some t\<rparr>"
  obtain r w1 where up: "updateUser i ?f w = (r, w1)" by (cases "updateUser i ?f w")
  have d: "documents w1 = documents w"
    using updateUser_frame(1) [of i ?f w] up by simp
  have "transaction xs w1 = Inr w'"
    using Cons.prems up by (cases r) (simp_all add: x)
  then show ?case using Cons.IH d by simp
qed

lemma documents_run: "documents (snd (run w)) = documents w"
proof -
  let ?w0 = "w\<lparr>users := map (\<lambda>r. r\<lparr>storageUsed := Some 0\<rparr>) (users w)\<rparr>"
  show ?thesis
  proof (cases "transaction (groupBy (documents ?w0)) ?w0")
    case (Inl e)
    then show ?thesis by (simp add: run_def Let_def)
  next
    case (Inr w1)
    then show ?thesis using documents_transaction [OF Inr] by (simp add: run_def Let_def)
  qed
qed

section \<open>Properties of trimming and of the fence removal\<close>















section \<open>Facts about the sample data\<close>

lemma sample_generate:
  "fst (generateStudyMaterials (env0\<lparr>createOutcome := x\<rparr>) t l w) = Inr materials"
  by (simp add: generateStudyMaterials_def env0_def fencedReply_def payload_def trim_def
      stripFence_def startsWith_def endsWith_def js_def isWhiteSpace_def Let_def)

lemma sample_reply: "stripFence (trim fencedReply) = payload"
  by (simp add: fencedReply_def payload_def trim_def stripFence_def startsWith_def
      endsWith_def js_def isWhiteSpace_def Let_def)

lemma sample_generate2:
  assumes "completion env = completion env0" "JSON_parse env = JSON_parse env0"
  shows "generateStudyMaterials env t l w = (Inr materials, w\<lparr>calls := calls w + 1\<rparr>)"
  using assms by (simp add: generateStudyMaterials_def env0_def sample_reply Let_def)

lemma sample_props:
  "getProp materials ''summary'' = Inr (Some (JStr (js ''s'')))"
  "getProp materials ''flashcards'' = Inr (Some (JArr []))"
  "getProp materials ''examQuestions'' = Inr (Some (JArr []))"
  by (simp_all add: materials_def js_def)

lemma sample_long: "\<not> length (trim (replicate 60 (0x61 :: 16 word))) < 50"
  by (simp add: trim_def isWhiteSpace_def)

lemma sample_extract:
  "extractTextFromFile env0 (file_path notesPdf) (file_mimetype notesPdf)
   = Inr (replicate 60 0x61)"
  by (simp add: extractTextFromFile_def notesPdf_def env0_def)

lemma sample_ingest:
  "fst (ingest env0 bobUpload notesPdf ''arabic'' world0)
   = Inr \<lparr>status = 200, body = UploadBody notesDoc\<rparr>"
proof -
  have c: "createOutcome env0 = Inr ''d1''" "now env0 = 86400000" by (simp_all add: env0_def)
  have f: "findDocument ''d1'' w = None" if "documents w = documents world0" for w
    using that by (simp add: findDocument_def world0_def slides_def)
  have u: "findUser (session_user_id bobUpload) w = Some bob" if "users w = users world0" for w
    using that by (simp add: findUser_def world0_def alice_def bob_def bobUpload_def)
  have "fst (ingest env0 bobUpload notesPdf ''arabic'' world0)
        = Inr \<lparr>status = 200,
               body = UploadBody
                 \<lparr>doc_id = ''d1'', userId = session_user_id bobUpload,
                  filename = file_filename notesPdf,
                  originalName = file_originalname notesPdf,
                  fileType = file_mimetype notesPdf,
                  fileSize = int (file_size notesPdf),
                  language = ''arabic'', summary = Some (JStr (js ''s'')),
                  flashcards = Some (JArr []), examQuestions = Some (JArr []),
                  uploadDate = 86400000\<rparr>\<rparr>"
    using sample_long
    by (simp add: ingest_def sample_extract sample_generate2 sample_props createDocument_def
        c f Let_def updateUser_found [OF u])
  then show ?thesis
    by (simp add: bobUpload_def notesPdf_def notesDoc_def)
qed


lemma sample_upload:
  "fst (upload env0 bobUpload world0) = \<lparr>status = 200, body = UploadBody notesDoc\<rparr>"
proof -
  have h1: "req_file bobUpload = Some notesPdf" by (simp add: bobUpload_def)
  have h2: "findUser (session_user_id bobUpload) world0 = Some bob"
    by (simp add: bobUpload_def findUser_def world0_def alice_def bob_def)
  have h3: "resetMonthlyUsageIfNeeded env0 bob world0 = (Inr bob, world0)"
    by (simp add: resetMonthlyUsageIfNeeded_def env0_def bob_def)
  have h4: "\<not> documentsUsed bob \<ge> getMonthlyLimit bob"
    by (simp add: getMonthlyLimit_def bob_def)
  have i: "snd (initStorage bob world0) = world0"
    by (simp add: initStorage_def bob_def)
  have l: "(if body_language bobUpload = Some ''arabic'' then ''arabic'' else ''english'')
           = ''arabic''"
    by (simp add: bobUpload_def)
  obtain w' where "ingest env0 bobUpload notesPdf ''arabic'' world0
                   = (Inr \<lparr>status = 200, body = UploadBody notesDoc\<rparr>, w')"
    using sample_ingest by (metis prod.collapse)
  then show ?thesis
    unfolding upload_def h1 option.case uploadTry_valid [OF h2 h3] i l
    using h4 by simp
qed

section \<open>The effective monthly limit\<close>

text \<open>
  C1, as stated, fails: the limit reaches 100 for a free, non-admin user as soon as the
  configured \<open>monthlyLimit\<close> is at least 100, so "at least 100 iff premium or admin" does
  not hold. Here a free user with \<open>monthlyLimit = 150\<close>.
\<close>

theorem getMonthlyLimit_iff_counterexample:
  "100 \<le> getMonthlyLimit
      \<lparr>user_id = ''u1'', plan = ''free'', role = None, documentsUsed = 0,
       monthlyLimit = Number 150, storageUsed = Some 0, lastReset = 0\<rparr>
   \<and> \<not> (plan \<lparr>user_id = ''u1'', plan = ''free'', role = None, documentsUsed = 0,
            monthlyLimit = Number 150, storageUsed = Some 0, lastReset = 0\<rparr> = ''premium''
        \<or> role \<lparr>user_id = ''u1'', plan = ''free'', role = None, documentsUsed = 0,
             monthlyLimit = Number 150, storageUsed = Some 0, lastReset = 0\<rparr> = Some ''admin'')"
  by (simp add: getMonthlyLimit_def)

text \<open>
  C1 (amended): for every user whose \<open>monthlyLimit\<close> is a number \<open>n\<close>, the effective limit
  is \<open>max n floor\<close>, where the floor is 100 for plan "premium" or role "admin" and 0
  otherwise. Consequently a premium or admin user's limit is at least 100; the limit is
  at least 100 exactly when the user is premium or admin or \<open>n\<close> is at least 100; and for
  any other user with a non-negative \<open>n\<close> the limit is \<open>n\<close>.
\<close>

theorem getMonthlyLimit_max:
  assumes "monthlyLimit u = Number n"
  shows "getMonthlyLimit u
           = max n (if plan u = ''premium'' \<or> role u = Some ''admin'' then 100 else 0)
       \<and> (plan u = ''premium'' \<or> role u = Some ''admin'' \<longrightarrow> 100 \<le> getMonthlyLimit u)
       \<and> (100 \<le> getMonthlyLimit u
            \<longleftrightarrow> plan u = ''premium'' \<or> role u = Some ''admin'' \<or> 100 \<le> n)
       \<and> (\<not> (plan u = ''premium'' \<or> role u = Some ''admin'') \<and> 0 \<le> n
            \<longrightarrow> getMonthlyLimit u = n)"
  using assms by (auto simp: getMonthlyLimit_def)

theorem getMonthlyLimit_max_witness:
  "getMonthlyLimit
     \<lparr>user_id = ''u2'', plan = ''premium'', role = None, documentsUsed = 50,
      monthlyLimit = Number 5, storageUsed = Some 0, lastReset = 0\<rparr> = 100
   \<and> getMonthlyLimit
     \<lparr>user_id = ''u3'', plan = ''free'', role = Some ''user'', documentsUsed = 5,
      monthlyLimit = Number 5, storageUsed = Some 0, lastReset = 0\<rparr> = 5"
  using getMonthlyLimit_max
          [of "\<lparr>user_id = ''u2'', plan = ''premium'', role = None, documentsUsed = 50,
                monthlyLimit = Number 5, storageUsed = Some 0, lastReset = 0\<rparr>" 5]
        getMonthlyLimit_max
          [of "\<lparr>user_id = ''u3'', plan = ''free'', role = Some ''user'', documentsUsed = 5,
                monthlyLimit = Number 5, storageUsed = Some 0, lastReset = 0\<rparr>" 5]
  by simp

text \<open>
  C10: when \<open>monthlyLimit\<close> is not a number (unset or null), the limit is computed from
  the default base 5: it is 5 for a free, non-admin user and 100 for a premium or admin
  user.
\<close>

theorem getMonthlyLimit_default_base:
  assumes "\<forall>n. monthlyLimit u \<noteq> Number n"
  shows "getMonthlyLimit u
           = max 5 (if plan u = ''premium'' \<or> role u = Some ''admin'' then 100 else 0)
       \<and> (\<not> (plan u = ''premium'' \<or> role u = Some ''admin'') \<longrightarrow> getMonthlyLimit u = 5)
       \<and> (plan u = ''premium'' \<or> role u = Some ''admin'' \<longrightarrow> getMonthlyLimit u = 100)"
  using assms by (cases "monthlyLimit u") (auto simp: getMonthlyLimit_def)

theorem getMonthlyLimit_default_base_witness:
  "getMonthlyLimit
     \<lparr>user_id = ''u4'', plan = ''free'', role = None, documentsUsed = 0,
      monthlyLimit = Null, storageUsed = Some 0, lastReset = 0\<rparr> = 5
   \<and> getMonthlyLimit
     \<lparr>user_id = ''u5'', plan = ''free'', role = Some ''admin'', documentsUsed = 0,
      monthlyLimit = Undefined, storageUsed = Some 0, lastReset = 0\<rparr> = 100"
  using getMonthlyLimit_default_base
          [of "\<lparr>user_id = ''u4'', plan = ''free'', role = None, documentsUsed = 0,
                monthlyLimit = Null, storageUsed = Some 0, lastReset = 0\<rparr>"]
        getMonthlyLimit_default_base
          [of "\<lparr>user_id = ''u5'', plan = ''free'', role = Some ''admin'', documentsUsed = 0,
                monthlyLimit = Undefined, storageUsed = Some 0, lastReset = 0\<rparr>"]
  by simp

section \<open>Quota rejection\<close>

text \<open>
  C2: an upload by an existing user whose \<open>documentsUsed\<close>, after the monthly-reset step,
  is at least the effective limit is answered with status 403 and the error
  "Monthly upload limit reached". No document is created, the accounting update does
  not run (the user's \<open>documentsUsed\<close> is the value after the reset step and the
  \<open>storageUsed\<close> counter keeps its value, a \<open>null\<close> counter having been initialised to the
  0 it is read as; when no reset is due and the counter is set, the whole \<open>user\<close> table
  is as before), the completion service is not called, and the temporary file is
  unlinked.
\<close>

theorem upload_quota_exceeded:
  assumes "req_file req = Some file"
    and "findUser (session_user_id req) w = Some u"
    and "resetMonthlyUsageIfNeeded env u w = (Inr u1, w1)"
    and "documentsUsed u1 \<ge> getMonthlyLimit u1"
  shows "status (fst (upload env req w)) = 403
       \<and> body (fst (upload env req w))
           = ErrorBody ''Monthly upload limit reached''
               (Some (if plan u = ''premium'' \<or> role u = Some ''admin''
                      then ''Upgrade for more'' else ''Free limit reached''))
       \<and> documents (snd (upload env req w)) = documents w
       \<and> map_option documentsUsed (findUser (session_user_id req) (snd (upload env req w)))
           = Some (documentsUsed u1)
       \<and> map_option storageUsed (findUser (session_user_id req) (snd (upload env req w)))
           = Some (Some (case storageUsed u of None \<Rightarrow> 0 | Some s \<Rightarrow> s))
       \<and> (now env - lastReset u < 30 * (1000 * 60 * 60 * 24) \<and> storageUsed u \<noteq> None
            \<longrightarrow> users (snd (upload env req w)) = users w)
       \<and> calls (snd (upload env req w)) = calls w
       \<and> (unlinkWorks env \<longrightarrow> file_path file \<notin> set (files (snd (upload env req w))))"
proof -
  have up: "upload env req w
            = (\<lparr>status = 403,
                body = ErrorBody ''Monthly upload limit reached''
                         (Some (if plan u = ''premium'' \<or> role u = Some ''admin''
                                then ''Upgrade for more'' else ''Free limit reached''))\<rparr>,
               unlink env (file_path file) (snd (initStorage u1 w1)))"
    unfolding upload_def assms(1) option.case uploadTry_valid [OF assms(2,3)]
    using assms(4) by simp
  show ?thesis
    unfolding up
    using validated_find [OF assms(2,3), of "session_user_id req"]
      validated_frame [OF assms(2,3)]
    by (simp add: unlink_frame unlink_removes)
qed


theorem upload_quota_exceeded_witness:
  "status (fst (upload env0 aliceUpload world0)) = 403
   \<and> body (fst (upload env0 aliceUpload world0))
       = ErrorBody ''Monthly upload limit reached'' (Some ''Free limit reached'')
   \<and> documents (snd (upload env0 aliceUpload world0)) = documents world0
   \<and> map_option documentsUsed (findUser ''alice'' (snd (upload env0 aliceUpload world0))) = Some 5
   \<and> map_option storageUsed (findUser ''alice'' (snd (upload env0 aliceUpload world0)))
       = Some (Some 4096)
   \<and> users (snd (upload env0 aliceUpload world0)) = users world0
   \<and> ''uploads/1-notes.pdf'' \<notin> set (files (snd (upload env0 aliceUpload world0)))"
proof -
  have h1: "req_file aliceUpload = Some notesPdf" by (simp add: aliceUpload_def)
  have h2: "findUser (session_user_id aliceUpload) world0 = Some alice"
    by (simp add: aliceUpload_def findUser_def world0_def alice_def)
  have h3: "resetMonthlyUsageIfNeeded env0 alice world0 = (Inr alice, world0)"
    by (simp add: resetMonthlyUsageIfNeeded_def env0_def alice_def)
  have h4: "documentsUsed alice \<ge> getMonthlyLimit alice"
    by (simp add: getMonthlyLimit_def alice_def)
  show ?thesis
    using upload_quota_exceeded [OF h1 h2 h3 h4]
    by (simp add: aliceUpload_def alice_def env0_def notesPdf_def)
qed

section \<open>Insufficient extracted text\<close>

text \<open>
  C8: when the upload reaches the extraction and the extracted text is empty or shorter
  than 50 code units, the request is answered with status 400 and the error
  "Could not extract enough text from file"; no document is created, the completion
  service is not called, the user's \<open>documentsUsed\<close> is not incremented and the temporary
  file is unlinked. The instance below extracts 30 code units.
\<close>

theorem upload_insufficient_text:
  assumes "req_file req = Some file"
    and "findUser (session_user_id req) w = Some u"
    and "resetMonthlyUsageIfNeeded env u w = (Inr u1, w1)"
    and "\<not> documentsUsed u1 \<ge> getMonthlyLimit u1"
    and "extractTextFromFile env (file_path file) (file_mimetype file) = Inr extracted"
    and "length extracted < 50"
  shows "status (fst (upload env req w)) = 400
       \<and> body (fst (upload env req w))
           = ErrorBody ''Could not extract enough text from file'' None
       \<and> documents (snd (upload env req w)) = documents w
       \<and> calls (snd (upload env req w)) = calls w
       \<and> map_option documentsUsed (findUser (session_user_id req) (snd (upload env req w)))
           = Some (documentsUsed u1)
       \<and> (unlinkWorks env \<longrightarrow> file_path file \<notin> set (files (snd (upload env req w))))"
proof -
  have up: "upload env req w
            = (\<lparr>status = 400,
                body = ErrorBody ''Could not extract enough text from file'' None\<rparr>,
               unlink env (file_path file) (snd (initStorage u1 w1)))"
    unfolding upload_def assms(1) option.case uploadTry_valid [OF assms(2,3)]
    using assms(4) by (simp add: ingest_short [OF assms(5,6)])
  show ?thesis
    unfolding up
    using validated_find [OF assms(2,3), of "session_user_id req"]
      validated_frame [OF assms(2,3)]
    by (simp add: unlink_frame unlink_removes)
qed


theorem upload_insufficient_text_witness:
  "length (replicate 30 (0x61 :: 16 word)) = 30
   \<and> status (fst (upload (env0\<lparr>pdfParse := \<lambda>p. Inr (replicate 30 0x61)\<rparr>) bobUpload world0)) = 400
   \<and> body (fst (upload (env0\<lparr>pdfParse := \<lambda>p. Inr (replicate 30 0x61)\<rparr>) bobUpload world0))
       = ErrorBody ''Could not extract enough text from file'' None
   \<and> documents (snd (upload (env0\<lparr>pdfParse := \<lambda>p. Inr (replicate 30 0x61)\<rparr>) bobUpload world0))
       = documents world0
   \<and> ''uploads/1-notes.pdf''
       \<notin> set (files (snd (upload (env0\<lparr>pdfParse := \<lambda>p. Inr (replicate 30 0x61)\<rparr>) bobUpload world0)))"
proof -
  let ?env = "env0\<lparr>pdfParse := \<lambda>p. Inr (replicate 30 0x61)\<rparr>"
  have h1: "req_file bobUpload = Some notesPdf" by (simp add: bobUpload_def)
  have h2: "findUser (session_user_id bobUpload) world0 = Some bob"
    by (simp add: bobUpload_def findUser_def world0_def alice_def bob_def)
  have h3: "resetMonthlyUsageIfNeeded ?env bob world0 = (Inr bob, world0)"
    by (simp add: resetMonthlyUsageIfNeeded_def env0_def bob_def)
  have h4: "\<not> documentsUsed bob \<ge> getMonthlyLimit bob"
    by (simp add: getMonthlyLimit_def bob_def)
  have h5: "extractTextFromFile ?env (file_path notesPdf) (file_mimetype notesPdf)
            = Inr (replicate 30 0x61)"
    by (simp add: extractTextFromFile_def notesPdf_def env0_def)
  have h6: "length (replicate 30 (0x61 :: 16 word)) < 50" by simp
  show ?thesis
    using upload_insufficient_text [OF h1 h2 h3 h4 h5 h6]
    by (simp add: env0_def notesPdf_def)
qed

section \<open>The monthly reset\<close>

text \<open>
  C6: on an upload attempt (a request that carries a file; without one the handler
  answers 400 before it reads the user) by an existing user, when at least 30 days have
  passed since \<open>lastReset\<close>, the reset step sets \<open>documentsUsed\<close> to 0 and \<open>lastReset\<close> to
  now, in the returned user and in the store, the quota is evaluated on the reset count
  (the request is rejected with 403 only if the limit is not positive), and after the
  request
  \<open>lastReset\<close> is now and \<open>documentsUsed\<close> is 0, or 1 after a successful upload. When
  fewer than 30 days have passed, the reset step returns the user and the store as they
  are, the quota is evaluated on the stored count, \<open>lastReset\<close> keeps its value and
  \<open>documentsUsed\<close> changes only by the increment of a successful upload.
\<close>

theorem upload_monthly_reset:
  assumes "req_file req = Some file"
    and "findUser (session_user_id req) w = Some u"
  shows "(30 * (1000 * 60 * 60 * 24) \<le> now env - lastReset u \<longrightarrow>
            fst (resetMonthlyUsageIfNeeded env u w)
              = Inr (u\<lparr>documentsUsed := 0, lastReset := now env\<rparr>)
          \<and> findUser (session_user_id req) (snd (resetMonthlyUsageIfNeeded env u w))
              = Some (u\<lparr>documentsUsed := 0, lastReset := now env\<rparr>)
          \<and> (status (fst (upload env req w)) = 403 \<longleftrightarrow> getMonthlyLimit u \<le> 0)
          \<and> map_option lastReset (findUser (session_user_id req) (snd (upload env req w)))
              = Some (now env)
          \<and> map_option documentsUsed (findUser (session_user_id req) (snd (upload env req w)))
              = Some (if status (fst (upload env req w)) = 200 then 1 else 0))
       \<and> (now env - lastReset u < 30 * (1000 * 60 * 60 * 24) \<longrightarrow>
            resetMonthlyUsageIfNeeded env u w = (Inr u, w)
          \<and> (status (fst (upload env req w)) = 403 \<longleftrightarrow> getMonthlyLimit u \<le> documentsUsed u)
          \<and> map_option lastReset (findUser (session_user_id req) (snd (upload env req w)))
              = Some (lastReset u)
          \<and> map_option documentsUsed (findUser (session_user_id req) (snd (upload env req w)))
              = Some (if status (fst (upload env req w)) = 200 then documentsUsed u + 1
                      else documentsUsed u))"
proof -
  let ?i = "session_user_id req"
  let ?u1 = "if now env - lastReset u < 2592000000 then u
             else u\<lparr>documentsUsed := 0, lastReset := now env\<rparr>"
  obtain w1 where rs: "resetMonthlyUsageIfNeeded env u w = (Inr ?u1, w1)"
    using reset_fst [OF assms(2), of env] by (metis prod.collapse)
  let ?w2 = "snd (initStorage ?u1 w1)"
  let ?db = "?u1\<lparr>storageUsed := Some (case storageUsed u of None \<Rightarrow> 0 | Some s \<Rightarrow> s)\<rparr>"
  let ?inc = "\<lambda>v. v\<lparr>documentsUsed := documentsUsed v + 1,
                     storageUsed := map_option (\<lambda>s. s + int (file_size file)) (storageUsed v)\<rparr>"
  have fu: "findUser ?i ?w2 = Some ?db"
    using validated_find [OF assms(2) rs, of ?i] by simp
  have lim: "getMonthlyLimit ?u1 = getMonthlyLimit u"
    by (simp add: getMonthlyLimit_def)
  have st: "status (fst (upload env req w)) = 403 \<longleftrightarrow> getMonthlyLimit u \<le> documentsUsed ?u1"
    using upload_outcome [OF assms rs] unfolding lim by auto
  have fin: "findUser ?i (snd (upload env req w))
             = Some (if status (fst (upload env req w)) = 200 then ?inc ?db else ?db)"
  proof -
    from upload_outcome [OF assms rs]
    consider (same) "status (fst (upload env req w)) \<noteq> 200"
        "users (snd (upload env req w)) = users ?w2"
      | (incr) "status (fst (upload env req w)) = 200"
        "users (snd (upload env req w))
          = map (\<lambda>v. if user_id v = ?i then ?inc v else v) (users ?w2)"
      by fastforce
    then show ?thesis
    proof cases
      case same
      then show ?thesis using fu findUser_cong [OF same(2), of ?i] by simp
    next
      case incr
      have "findUser ?i (snd (upload env req w)) = map_option ?inc (findUser ?i ?w2)"
        using find_map_update [of ?inc ?i ?i "users ?w2"] incr(2)
        by (simp add: findUser_def)
      then show ?thesis using fu incr(1) by simp
    qed
  qed
  have due: "fst (resetMonthlyUsageIfNeeded env u w)
               = Inr (u\<lparr>documentsUsed := 0, lastReset := now env\<rparr>)
             \<and> findUser ?i (snd (resetMonthlyUsageIfNeeded env u w))
               = Some (u\<lparr>documentsUsed := 0, lastReset := now env\<rparr>)"
    if "2592000000 \<le> now env - lastReset u"
    using that reset_fst [OF assms(2), of env] reset_find [OF assms(2), of ?i env] by simp
  show ?thesis
    using st fin due reset_early [of env u w] by (auto split: if_splits)
qed



theorem upload_monthly_reset_witness:
  "fst (resetMonthlyUsageIfNeeded (env0\<lparr>now := 2592000000\<rparr>) alice world0)
     = Inr (alice\<lparr>documentsUsed := 0, lastReset := 2592000000\<rparr>)
   \<and> status (fst (upload (env0\<lparr>now := 2592000000\<rparr>) aliceUpload world0)) \<noteq> 403
   \<and> map_option lastReset
        (findUser ''alice'' (snd (upload (env0\<lparr>now := 2592000000\<rparr>) aliceUpload world0)))
       = Some 2592000000
   \<and> resetMonthlyUsageIfNeeded (env0\<lparr>now := 2591999999\<rparr>) alice world0 = (Inr alice, world0)
   \<and> status (fst (upload (env0\<lparr>now := 2591999999\<rparr>) aliceUpload world0)) = 403
   \<and> map_option lastReset
        (findUser ''alice'' (snd (upload (env0\<lparr>now := 2591999999\<rparr>) aliceUpload world0)))
       = Some 0
   \<and> map_option documentsUsed
        (findUser ''alice'' (snd (upload (env0\<lparr>now := 2591999999\<rparr>) aliceUpload world0)))
       = Some 5"
proof -
  have h1: "req_file aliceUpload = Some notesPdf" by (simp add: aliceUpload_def)
  have h2: "findUser (session_user_id aliceUpload) world0 = Some alice"
    by (simp add: aliceUpload_def findUser_def world0_def alice_def)
  have l: "getMonthlyLimit alice = 5" "documentsUsed alice = 5" "lastReset alice = 0"
    by (simp_all add: getMonthlyLimit_def alice_def)
  have i: "session_user_id aliceUpload = ''alice''" by (simp add: aliceUpload_def)
  have due: "30 * (1000 * 60 * 60 * 24) \<le> now (env0\<lparr>now := 2592000000\<rparr>) - lastReset alice"
    and early: "now (env0\<lparr>now := 2591999999\<rparr>) - lastReset alice < 30 * (1000 * 60 * 60 * 24)"
    by (simp_all add: l)
  note a = upload_monthly_reset [OF h1 h2, of "env0\<lparr>now := 2592000000\<rparr>",
      THEN conjunct1, rule_format, OF due]
  note b = upload_monthly_reset [OF h1 h2, of "env0\<lparr>now := 2591999999\<rparr>",
      THEN conjunct2, rule_format, OF early]
  have s: "status (fst (upload (env0\<lparr>now := 2591999999\<rparr>) aliceUpload world0)) = 403"
    using b by (simp add: l)
  show ?thesis
    using a b unfolding s i l by simp
qed

section \<open>Failure of the document creation\<close>

text \<open>
  C7: the accounting update runs only after \<open>document.create\<close> has succeeded. For every
  upload by an existing user, a response other than the 200 of a completed upload leaves
  the \<open>Document\<close> table as it was and the user's \<open>documentsUsed\<close> and \<open>storageUsed\<close> at
  their values after the validation steps, and a 200 response comes with the new row and
  both increments. In particular, when the request reaches \<open>document.create\<close> and the
  write fails, the response is a 500 carrying the store's message, no document exists
  and neither counter has been incremented.
\<close>

theorem upload_persistence_failure:
  assumes "req_file req = Some file"
    and "findUser (session_user_id req) w = Some u"
    and "resetMonthlyUsageIfNeeded env u w = (Inr u1, w1)"
  shows "(status (fst (upload env req w)) \<noteq> 200 \<longrightarrow>
            documents (snd (upload env req w)) = documents w
          \<and> map_option documentsUsed (findUser (session_user_id req) (snd (upload env req w)))
              = Some (documentsUsed u1)
          \<and> map_option storageUsed (findUser (session_user_id req) (snd (upload env req w)))
              = Some (Some (case storageUsed u of None \<Rightarrow> 0 | Some s \<Rightarrow> s)))
       \<and> (status (fst (upload env req w)) = 200 \<longrightarrow>
            (\<exists>doc. body (fst (upload env req w)) = UploadBody doc
               \<and> documents (snd (upload env req w)) = documents w @ [doc])
          \<and> map_option documentsUsed (findUser (session_user_id req) (snd (upload env req w)))
              = Some (documentsUsed u1 + 1)
          \<and> map_option storageUsed (findUser (session_user_id req) (snd (upload env req w)))
              = Some (Some ((case storageUsed u of None \<Rightarrow> 0 | Some s \<Rightarrow> s)
                            + int (file_size file))))
       \<and> (\<not> documentsUsed u1 \<ge> getMonthlyLimit u1
          \<and> extractTextFromFile env (file_path file) (file_mimetype file) = Inr extracted
          \<and> 50 \<le> length (trim extracted)
          \<and> fst (generateStudyMaterials env extracted
                   (if body_language req = Some ''arabic'' then ''arabic'' else ''english'') w)
              = Inr sm
          \<and> sm \<noteq> JNull
          \<and> (createOutcome env = Inl e
              \<or> (\<exists>k. createOutcome env = Inr k \<and> findDocument k w \<noteq> None
                   \<and> e = StoreError ''Unique constraint failed''))
          \<longrightarrow> status (fst (upload env req w)) = 500
            \<and> body (fst (upload env req w))
                = ErrorBody ''Failed to process document'' (Some (message e))
            \<and> documents (snd (upload env req w)) = documents w
            \<and> map_option documentsUsed (findUser (session_user_id req) (snd (upload env req w)))
                = Some (documentsUsed u1)
            \<and> map_option storageUsed (findUser (session_user_id req) (snd (upload env req w)))
                = Some (Some (case storageUsed u of None \<Rightarrow> 0 | Some s \<Rightarrow> s))
            \<and> (unlinkWorks env \<longrightarrow> file_path file \<notin> set (files (snd (upload env req w)))))"
proof -
  let ?i = "session_user_id req"
  let ?w2 = "snd (initStorage u1 w1)"
  let ?lang = "if body_language req = Some ''arabic'' then ''arabic'' else ''english''"
  let ?db = "u1\<lparr>storageUsed := Some (case storageUsed u of None \<Rightarrow> 0 | Some s \<Rightarrow> s)\<rparr>"
  let ?inc = "\<lambda>v. v\<lparr>documentsUsed := documentsUsed v + 1,
                     storageUsed := map_option (\<lambda>s. s + int (file_size file)) (storageUsed v)\<rparr>"
  have fu: "findUser ?i ?w2 = Some ?db"
    using validated_find [OF assms(2,3), of ?i] by simp
  note out = upload_outcome [OF assms]
  have not200: "documents (snd (upload env req w)) = documents w
      \<and> map_option documentsUsed (findUser ?i (snd (upload env req w))) = Some (documentsUsed u1)
      \<and> map_option storageUsed (findUser ?i (snd (upload env req w)))
          = Some (Some (case storageUsed u of None \<Rightarrow> 0 | Some s \<Rightarrow> s))"
    if "status (fst (upload env req w)) \<noteq> 200"
  proof -
    from out that have "documents (snd (upload env req w)) = documents w"
      and us: "users (snd (upload env req w)) = users ?w2" by auto
    then show ?thesis using fu findUser_cong [OF us, of ?i] by simp
  qed
  have is200: "(\<exists>doc. body (fst (upload env req w)) = UploadBody doc
               \<and> documents (snd (upload env req w)) = documents w @ [doc])
      \<and> map_option documentsUsed (findUser ?i (snd (upload env req w)))
          = Some (documentsUsed u1 + 1)
      \<and> map_option storageUsed (findUser ?i (snd (upload env req w)))
          = Some (Some ((case storageUsed u of None \<Rightarrow> 0 | Some s \<Rightarrow> s) + int (file_size file)))"
    if "status (fst (upload env req w)) = 200"
  proof -
    from out that have d: "\<exists>doc. body (fst (upload env req w)) = UploadBody doc
               \<and> documents (snd (upload env req w)) = documents w @ [doc]"
      and us: "users (snd (upload env req w))
               = map (\<lambda>v. if user_id v = ?i then ?inc v else v) (users ?w2)" by auto
    have "findUser ?i (snd (upload env req w)) = map_option ?inc (findUser ?i ?w2)"
      using find_map_update [of ?inc ?i ?i "users ?w2"] us by (simp add: findUser_def)
    then show ?thesis using d fu by simp
  qed
  have fails: "status (fst (upload env req w)) = 500
      \<and> body (fst (upload env req w))
          = ErrorBody ''Failed to process document'' (Some (message e))
      \<and> (unlinkWorks env \<longrightarrow> file_path file \<notin> set (files (snd (upload env req w))))"
    if h: "\<not> documentsUsed u1 \<ge> getMonthlyLimit u1"
      "extractTextFromFile env (file_path file) (file_mimetype file) = Inr extracted"
      "50 \<le> length (trim extracted)"
      "fst (generateStudyMaterials env extracted ?lang w) = Inr sm"
      "sm \<noteq> JNull"
      "createOutcome env = Inl e
       \<or> (\<exists>k. createOutcome env = Inr k \<and> findDocument k w \<noteq> None
            \<and> e = StoreError ''Unique constraint failed'')"
  proof -
    have g: "fst (generateStudyMaterials env extracted ?lang ?w2) = Inr sm"
      using h(4) generate_fst_calls [of ?w2 w env extracted ?lang]
        validated_frame(3) [OF assms(2,3)] by simp
    have c: "createOutcome env = Inl e
       \<or> (\<exists>k. createOutcome env = Inr k \<and> findDocument k ?w2 \<noteq> None
            \<and> e = StoreError ''Unique constraint failed'')"
      using h(6) validated_frame(1) [OF assms(2,3)] by (simp add: findDocument_def)
    show ?thesis
      unfolding upload_def assms(1) option.case uploadTry_valid [OF assms(2,3)]
      using h(1) by (simp add: ingest_create_fails [OF h(2,3) g h(5) c] unlink_removes)
  qed
  show ?thesis
    using not200 is200 fails by (intro conjI impI) (simp_all del: One_nat_def)
qed


theorem upload_persistence_failure_witness:
  "status (fst (upload (env0\<lparr>createOutcome := Inl (StoreError ''connection lost'')\<rparr>)
                  bobUpload world0)) = 500
   \<and> body (fst (upload (env0\<lparr>createOutcome := Inl (StoreError ''connection lost'')\<rparr>)
                  bobUpload world0))
       = ErrorBody ''Failed to process document'' (Some ''connection lost'')
   \<and> documents (snd (upload (env0\<lparr>createOutcome := Inl (StoreError ''connection lost'')\<rparr>)
                  bobUpload world0)) = documents world0
   \<and> map_option documentsUsed
        (findUser ''bob'' (snd (upload (env0\<lparr>createOutcome := Inl (StoreError ''connection lost'')\<rparr>)
                                  bobUpload world0))) = Some 50
   \<and> map_option storageUsed
        (findUser ''bob'' (snd (upload (env0\<lparr>createOutcome := Inl (StoreError ''connection lost'')\<rparr>)
                                  bobUpload world0))) = Some (Some 500000)"
proof -
  let ?env = "env0\<lparr>createOutcome := Inl (StoreError ''connection lost'')\<rparr>"
  have h1: "req_file bobUpload = Some notesPdf" by (simp add: bobUpload_def)
  have h2: "findUser (session_user_id bobUpload) world0 = Some bob"
    by (simp add: bobUpload_def findUser_def world0_def alice_def bob_def)
  have h3: "resetMonthlyUsageIfNeeded ?env bob world0 = (Inr bob, world0)"
    by (simp add: resetMonthlyUsageIfNeeded_def env0_def bob_def)
  have h4: "\<not> documentsUsed bob \<ge> getMonthlyLimit bob"
    by (simp add: getMonthlyLimit_def bob_def)
  have h5: "extractTextFromFile ?env (file_path notesPdf) (file_mimetype notesPdf)
            = Inr (replicate 60 0x61)"
    by (simp add: extractTextFromFile_def notesPdf_def env0_def)
  have h6: "50 \<le> length (trim (replicate 60 (0x61 :: 16 word)))"
    by (simp add: trim_def isWhiteSpace_def)
  have h7: "fst (generateStudyMaterials ?env (replicate 60 0x61)
                  (if body_language bobUpload = Some ''arabic'' then ''arabic'' else ''english'')
                  world0) = Inr materials"
    by (rule sample_generate)
  have h8: "materials \<noteq> JNull" by (simp add: materials_def)
  have h9: "createOutcome ?env = Inl (StoreError ''connection lost'')" by simp
  show ?thesis
    using upload_persistence_failure [OF h1 h2 h3, THEN conjunct2, THEN conjunct2, rule_format,
        of "replicate 60 0x61" materials "StoreError ''connection lost''"]
      h4 h5 h6 h7 h8 h9
    by (simp add: bobUpload_def bob_def)
qed

section \<open>Storage accounting: upload, then deletion\<close>

text \<open>
  C3: for a user whose \<open>storageUsed\<close> is a non-negative \<open>s\<close>, a successful upload of a file
  of \<open>S\<close> bytes creates a document of recorded size \<open>S\<close> and leaves \<open>storageUsed\<close> at
  \<open>s + S\<close>; deleting that document, on the owner's route or on the admin route, brings
  \<open>storageUsed\<close> back to \<open>s\<close>. Every deletion of an existing document whose owner exists
  sets the owner's \<open>storageUsed\<close> to the current counter (a \<open>null\<close> counter read as 0) minus
  the recorded size, or to 0 when that difference is not positive. The instance deletes
  a document of 1,000,000 bytes when \<open>storageUsed\<close> is 500,000 and gets 0.
\<close>

theorem storage_round_trip:
  assumes "req_file req = Some file"
    and "findUser (session_user_id req) w = Some u"
    and "storageUsed u = Some s"
    and "0 \<le> s"
    and "status (fst (upload env req w)) = 200"
  shows "(\<exists>doc. body (fst (upload env req w)) = UploadBody doc
            \<and> findDocument (doc_id doc) (snd (upload env req w)) = Some doc
            \<and> userId doc = session_user_id req
            \<and> fileSize doc = int (file_size file)
            \<and> map_option storageUsed (findUser (session_user_id req) (snd (upload env req w)))
                = Some (Some (s + int (file_size file)))
            \<and> map_option storageUsed
                  (findUser (session_user_id req)
                     (snd (deleteOwnDocument req (doc_id doc) (snd (upload env req w)))))
                = Some (Some s)
            \<and> map_option storageUsed
                  (findUser (session_user_id req)
                     (snd (deleteUserFile (session_user_id req) (doc_id doc)
                             (snd (upload env req w)))))
                = Some (Some s))
       \<and> (findDocument k v = Some d \<and> findUser (userId d) v = Some owner
          \<and> (session_user_role rq = Some ''admin'' \<or> userId d = session_user_id rq)
          \<longrightarrow> map_option storageUsed (findUser (userId d) (snd (deleteOwnDocument rq k v)))
                = Some (Some (max 0 ((case storageUsed owner of None \<Rightarrow> 0 | Some c \<Rightarrow> c)
                                     - fileSize d)))
            \<and> map_option storageUsed (findUser (userId d) (snd (deleteUserFile (userId d) k v)))
                = Some (Some (max 0 ((case storageUsed owner of None \<Rightarrow> 0 | Some c \<Rightarrow> c)
                                     - fileSize d))))"
proof -
  let ?i = "session_user_id req"
  let ?w' = "snd (upload env req w)"
  obtain u1 w1 where rs: "resetMonthlyUsageIfNeeded env u w = (Inr u1, w1)"
    using reset_fst [OF assms(2), of env] by (metis prod.collapse)
  have su1: "storageUsed u1 = Some s"
    using reset_result(1) [OF assms(2) rs] assms(3) by (auto split: if_splits)
  let ?w2 = "snd (initStorage u1 w1)"
  let ?db = "u1\<lparr>storageUsed := Some (case storageUsed u of None \<Rightarrow> 0 | Some s \<Rightarrow> s)\<rparr>"
  let ?inc = "\<lambda>v. v\<lparr>documentsUsed := documentsUsed v + 1,
                     storageUsed := map_option (\<lambda>s. s + int (file_size file)) (storageUsed v)\<rparr>"
  have fu: "findUser ?i ?w2 = Some ?db"
    using validated_find [OF assms(2) rs, of ?i] by simp
  from upload_outcome [OF assms(1,2) rs] assms(5)
  obtain doc where doc: "body (fst (upload env req w)) = UploadBody doc"
      "documents ?w' = documents w @ [doc]" "findDocument (doc_id doc) w = None"
      "userId doc = ?i" "fileSize doc = int (file_size file)"
    and us: "users ?w' = map (\<lambda>v. if user_id v = ?i then ?inc v else v) (users ?w2)"
    by auto
  have fd: "findDocument (doc_id doc) ?w' = Some doc"
    using doc(2,3) find_append_fresh [of "\<lambda>x. doc_id x = doc_id doc" "documents w" doc]
    by (simp add: findDocument_def)
  have "findUser ?i ?w' = map_option ?inc (findUser ?i ?w2)"
    using find_map_update [of ?inc ?i ?i "users ?w2"] us by (simp add: findUser_def)
  then have fo: "findUser ?i ?w' = Some (?inc ?db)"
    using fu by simp
  have fo': "findUser (userId doc) ?w' = Some (?inc ?db)"
    using fo doc(4) by simp
  have st: "storageUsed (?inc ?db) = Some (s + int (file_size file))"
    using assms(3) by simp
  have restored: "max 0 ((case storageUsed (?inc ?db) of None \<Rightarrow> 0 | Some c \<Rightarrow> c) - fileSize doc) = s"
    using assms(3,4) doc(5) by simp
  have d1: "map_option storageUsed (findUser ?i (snd (deleteOwnDocument req (doc_id doc) ?w')))
            = Some (Some s)"
    using deleteOwnDocument_done(2) [OF fd _ fo', of req ?i] doc(4) restored by simp
  have d2: "map_option storageUsed (findUser ?i (snd (deleteUserFile ?i (doc_id doc) ?w')))
            = Some (Some s)"
    using deleteUserFile_done(2) [OF fd doc(4) fo, of ?i] restored by simp
  have general: "map_option storageUsed (findUser (userId d) (snd (deleteOwnDocument rq k v)))
                = Some (Some (max 0 ((case storageUsed owner of None \<Rightarrow> 0 | Some c \<Rightarrow> c)
                                     - fileSize d)))
            \<and> map_option storageUsed (findUser (userId d) (snd (deleteUserFile (userId d) k v)))
                = Some (Some (max 0 ((case storageUsed owner of None \<Rightarrow> 0 | Some c \<Rightarrow> c)
                                     - fileSize d)))"
    if "findDocument k v = Some d" "findUser (userId d) v = Some owner"
      "session_user_role rq = Some ''admin'' \<or> userId d = session_user_id rq"
    using deleteOwnDocument_done(2) [OF that(1,3,2), of "userId d"]
      deleteUserFile_done(2) [OF that(1) refl that(2), of "userId d"]
    by simp
  show ?thesis
    using doc(1,4,5) fd fo st d1 d2 general by (intro conjI impI exI [of _ doc]) simp_all
qed



theorem storage_round_trip_witness:
  "status (fst (upload env0 bobUpload world0)) = 200
   \<and> map_option storageUsed (findUser ''bob'' world0) = Some (Some 500000)
   \<and> map_option storageUsed (findUser ''bob'' (snd (upload env0 bobUpload world0)))
       = Some (Some 502048)
   \<and> map_option storageUsed
        (findUser ''bob'' (snd (deleteOwnDocument bobUpload ''d1'' (snd (upload env0 bobUpload world0)))))
       = Some (Some 500000)
   \<and> map_option storageUsed
        (findUser ''bob'' (snd (deleteUserFile ''bob'' ''d1'' (snd (upload env0 bobUpload world0)))))
       = Some (Some 500000)
   \<and> fileSize slides = 1000000
   \<and> map_option storageUsed (findUser ''bob'' (snd (deleteUserFile ''bob'' ''d0'' world0)))
       = Some (Some 0)
   \<and> map_option storageUsed (findUser ''bob'' (snd (deleteOwnDocument bobUpload ''d0'' world0)))
       = Some (Some 0)"
proof -
  have h1: "req_file bobUpload = Some notesPdf" by (simp add: bobUpload_def)
  have h2: "findUser (session_user_id bobUpload) world0 = Some bob"
    by (simp add: bobUpload_def findUser_def world0_def alice_def bob_def)
  have h3: "storageUsed bob = Some 500000" by (simp add: bob_def)
  have h4: "(0::int) \<le> 500000" by simp
  have h5: "status (fst (upload env0 bobUpload world0)) = 200" by (simp add: sample_upload)
  have g1: "findDocument ''d0'' world0 = Some slides"
    by (simp add: findDocument_def world0_def slides_def)
  have g2: "findUser (userId slides) world0 = Some bob"
    by (simp add: findUser_def world0_def alice_def bob_def slides_def)
  have g3: "session_user_role bobUpload = Some ''admin''
            \<or> userId slides = session_user_id bobUpload"
    by (simp add: bobUpload_def slides_def)
  note t = storage_round_trip [OF h1 h2 h3 h4 h5,
      where k = "''d0''" and v = world0 and d = slides and owner = bob and rq = bobUpload]
  have i: "session_user_id bobUpload = ''bob''" "userId slides = ''bob''"
    "fileSize slides = 1000000" "file_size notesPdf = 2048" "doc_id notesDoc = ''d1''"
    by (simp_all add: bobUpload_def slides_def notesPdf_def notesDoc_def)
  show ?thesis
    using t g1 g2 g3 h2 h3 unfolding sample_upload i by (auto simp: h3 i)
qed

section \<open>The storage repair\<close>

text \<open>
  C5: when every document's owner exists, the backfill completes and sets each user's
  \<open>storageUsed\<close> to the sum of \<open>fileSize\<close> over that user's documents, leaving the documents
  as they are; running it again on the result gives the same result; and a user with no
  documents ends with \<open>storageUsed = 0\<close>.
\<close>

theorem backfill_recomputes:
  assumes "ownersExist w"
  shows "fst (run w) = Inr (length (users w))
       \<and> users (snd (run w))
           = map (\<lambda>r. r\<lparr>storageUsed := Some (storageOf (documents w) (user_id r))\<rparr>) (users w)
       \<and> documents (snd (run w)) = documents w
       \<and> findUser i (snd (run w))
           = map_option (\<lambda>r. r\<lparr>storageUsed := Some (storageOf (documents w) i)\<rparr>) (findUser i w)
       \<and> run (snd (run w)) = run w
       \<and> (filter (\<lambda>d. userId d = i) (documents w) = []
            \<longrightarrow> map_option storageUsed (findUser i (snd (run w)))
                = map_option (\<lambda>r. Some 0) (findUser i w))"
proof -
  let ?h = "\<lambda>r. r\<lparr>storageUsed := Some (storageOf (documents w) (user_id r))\<rparr>"
  note r = run_result [OF assms]
  have fi: "findUser i (snd (run w))
            = map_option (\<lambda>r. r\<lparr>storageUsed := Some (storageOf (documents w) i)\<rparr>) (findUser i w)"
  proof (cases "findUser i w")
    case None
    then show ?thesis by (simp add: r findUser_map_storage)
  next
    case (Some u)
    then show ?thesis using findUser_id [OF Some] by (simp add: r findUser_map_storage)
  qed
  have idem: "run (snd (run w)) = run w"
    using run_result [OF ownersExist_run [OF assms]] by (simp add: r comp_def)
  have none: "map_option storageUsed (findUser i (snd (run w)))
              = map_option (\<lambda>r. Some 0) (findUser i w)"
    if "filter (\<lambda>d. userId d = i) (documents w) = []"
    using that by (simp add: fi storageOf_def option.map_comp comp_def)
  show ?thesis
    using fi idem none by (simp add: r)
qed

theorem backfill_recomputes_witness:
  "map_option storageUsed (findUser ''bob'' world0) = Some (Some 500000)
   \<and> map_option storageUsed (findUser ''bob'' (snd (run world0))) = Some (Some 1000000)
   \<and> map_option storageUsed (findUser ''alice'' (snd (run world0))) = Some (Some 0)
   \<and> run (snd (run world0)) = run world0"
proof -
  have h: "ownersExist world0"
    by (simp add: ownersExist_def world0_def slides_def findUser_def alice_def bob_def)
  have a: "findUser ''alice'' world0 = Some alice" "findUser ''bob'' world0 = Some bob"
    by (simp_all add: findUser_def world0_def alice_def bob_def)
  have s: "storageOf (documents world0) ''bob'' = 1000000"
    "filter (\<lambda>d. userId d = ''alice'') (documents world0) = []"
    by (simp_all add: storageOf_def world0_def slides_def)
  show ?thesis
    using backfill_recomputes [OF h, of "''bob''"] backfill_recomputes [OF h, of "''alice''"]
    by (simp add: a s) (auto simp: bob_def)
qed


section \<open>The storage counter is never negative\<close>

text \<open>
  C4: in a state where no user's \<open>storageUsed\<close> is negative and no document has a negative
  size, the upload handler (with its accounting increment), the owner's deletion route,
  the admin deletion route and the storage backfill each end in a state where again no
  user's \<open>storageUsed\<close> is negative and no document has a negative size.
\<close>

theorem storage_never_negative:
  assumes "storageNonNegative w" and "sizesNonNegative w"
  shows "storageNonNegative (snd (upload env req w))
       \<and> sizesNonNegative (snd (upload env req w))
       \<and> storageNonNegative (snd (deleteOwnDocument req k w))
       \<and> sizesNonNegative (snd (deleteOwnDocument req k w))
       \<and> storageNonNegative (snd (deleteUserFile i k w))
       \<and> sizesNonNegative (snd (deleteUserFile i k w))
       \<and> storageNonNegative (snd (run w))
       \<and> sizesNonNegative (snd (run w))"
  using assms
    sizesNonNegative_subset [OF assms(2) documents_deleteOwn [of req k w]]
    sizesNonNegative_subset [OF assms(2) documents_deleteUserFile [of i k w]]
    sizesNonNegative_subset [OF assms(2), of "snd (run w)"]
  by (simp add: storageNonNegative_upload storageNonNegative_deleteOwn
      storageNonNegative_deleteUserFile storageNonNegative_run sizesNonNegative_upload
      documents_run)

theorem storage_never_negative_witness:
  "storageNonNegative world0
   \<and> storageNonNegative (snd (upload env0 bobUpload world0))
   \<and> storageNonNegative (snd (deleteOwnDocument bobUpload ''d0'' world0))
   \<and> storageNonNegative (snd (deleteUserFile ''bob'' ''d0'' world0))
   \<and> storageNonNegative (snd (run world0))"
proof -
  have h1: "storageNonNegative world0"
    by (simp add: storageNonNegative_def world0_def alice_def bob_def)
  have h2: "sizesNonNegative world0"
    by (simp add: sizesNonNegative_def world0_def slides_def)
  show ?thesis
    using storage_never_negative [OF h1 h2, of env0 bobUpload "''d0''" "''bob''"] h1
    by simp
qed

section \<open>The content generator\<close>





end
